theory Spec2Isabelle
  imports Main "HOL-Library.AList" "HOL-Library.Char_ord" "HOL-Library.List_Lexorder"
    "HOL-Library.Sublist"
begin

section \<open>Python values the symbol model is built from\<close>

text \<open>
  The development embeds \<^verbatim>\<open>symbols.py\<close> and \<^verbatim>\<open>worker.py\<close> of SublimeHaskell.
  Python strings are modelled as \<^typ>\<open>string\<close>, a character being a code point below 256;
  the character classes of the regular expressions (\<^verbatim>\<open>\w\<close>, \<^verbatim>\<open>\d\<close>, \<^verbatim>\<open>\s\<close>) and the
  line ends of \<^verbatim>\<open>splitlines\<close> are those of Python 3 \<^verbatim>\<open>str\<close> on these code points.
  Objects that the code mutates or compares by identity
  (modules, declarations, imports, locations) live in an explicit store and are named by
  references; a field holding \<^verbatim>\<open>None\<close> is \<^const>\<open>None\<close>. An instance attribute that
  \<^verbatim>\<open>__init__\<close> does not assign is \<open>Absent\<close>: reading it raises \<^verbatim>\<open>AttributeError\<close>.
\<close>

datatype error =
    AttributeError string
  | RuntimeError string
  | NameError string
  | TypeError string

datatype 'a outcome = Returned 'a | Raised error

datatype 'a attr = Absent | Present 'a

type_synonym mref = nat
type_synonym dref = nat
type_synonym iref = nat
type_synonym lref = nat

text \<open>Truth value of \<^verbatim>\<open>str\<close>-or-\<^verbatim>\<open>None\<close>: \<^verbatim>\<open>None\<close> and the empty string are false.\<close>

definition truthy :: "string option \<Rightarrow> bool" where
  "truthy v = (case v of None \<Rightarrow> False | Some s \<Rightarrow> s \<noteq> [])"

text \<open>\<^verbatim>\<open>'{0}'.format(v)\<close> for a \<^verbatim>\<open>str\<close>-or-\<^verbatim>\<open>None\<close> value.\<close>

definition format_opt :: "string option \<Rightarrow> string" where
  "format_opt v = (case v of None \<Rightarrow> ''None'' | Some s \<Rightarrow> s)"

subsection \<open>Position\<close>

record position =
  line :: int
  column :: "int option"

subsection \<open>Package, PackageDb and the three Location classes\<close>

datatype package = Package (pkg_name: string) (pkg_version: "string option")

text \<open>\<^verbatim>\<open>Package.package_id\<close>\<close>

definition package_id :: "package \<Rightarrow> string" where
  "package_id p =
     (case pkg_version p of
        Some v \<Rightarrow> pkg_name p @ ''-'' @ v
      | None \<Rightarrow> pkg_name p)"

record packagedb =
  global_db :: bool
  user_db :: bool
  package_db :: "string option"

text \<open>\<^verbatim>\<open>PackageDb.__init__\<close>: the first flag that is set wins.\<close>

definition PackageDb :: "bool \<Rightarrow> bool \<Rightarrow> string option \<Rightarrow> packagedb" where
  "PackageDb g u p =
     (if g then \<lparr>global_db = True, user_db = False, package_db = None\<rparr>
      else if u then \<lparr>global_db = False, user_db = True, package_db = None\<rparr>
      else if truthy p then \<lparr>global_db = False, user_db = False, package_db = p\<rparr>
      else \<lparr>global_db = False, user_db = False, package_db = None\<rparr>)"

text \<open>\<^verbatim>\<open>PackageDb.to_string\<close>: falls off the end (returns \<^verbatim>\<open>None\<close>) when nothing is set.\<close>

definition db_to_string :: "packagedb \<Rightarrow> string option" where
  "db_to_string d =
     (if global_db d then Some ''global-db''
      else if user_db d then Some ''user-db''
      else if truthy (package_db d) then package_db d
      else None)"

datatype location_obj =
    Location (filename: "string option") (project: "string option")
  | InstalledLocation (package: "package option") (db: packagedb)
  | OtherLocation (source: "string option")

subsection \<open>Import, Declaration, Module and the store\<close>

record import_obj =
  imp_module :: string
  is_qualified :: bool
  import_as :: "string option"
  imp_position :: "position option"
  imp_location :: "lref option"

text \<open>
  The \<^verbatim>\<open>context\<close> of a \<^verbatim>\<open>TypeBase\<close> is documented as a list of strings and read as one by
  \<^verbatim>\<open>brief\<close>, but \<^verbatim>\<open>popup_brief\<close> calls \<^verbatim>\<open>split\<close> on it; both shapes are kept.
\<close>

datatype ctx = CtxNone | CtxList "string list" | CtxStr string

datatype decl_variant =
    Plain
  | Function (ftype: "string option")
  | TypeBase (tb_context: ctx) (tb_args: "string list") (tb_definition: "string option")

text \<open>
  \<^verbatim>\<open>Declaration.__init__\<close> assigns no \<^verbatim>\<open>location\<close>; the attribute appears when a
  module adopts the declaration.
\<close>

record declaration_obj =
  d_what :: string
  d_name :: string
  docs :: "string option"
  imported :: "iref list"
  defined :: "mref option"
  d_position :: "position option"
  d_module :: "mref option"
  d_location :: "lref option attr"
  variant :: decl_variant

text \<open>
  \<^verbatim>\<open>Module.__init__\<close> assigns \<^verbatim>\<open>exports\<close> only when the argument is not \<^verbatim>\<open>None\<close>, and
  never assigns \<^verbatim>\<open>cabal\<close>, the attribute that \<^verbatim>\<open>same_module\<close> reads.
  The dictionary \<^verbatim>\<open>declarations\<close> is an association list from names to references.
  The dictionary \<^verbatim>\<open>tags\<close> of \<^verbatim>\<open>Symbol\<close>, which no function reads, is left out of
  modules and declarations.
\<close>

record module_obj =
  m_what :: string
  m_name :: string
  m_location :: "lref option"
  m_exports :: "string list attr"
  m_imports :: "iref list"
  m_declarations :: "(string \<times> dref) list"
  last_inspection_time :: int
  m_cabal :: "string option attr"

record heap =
  modules :: "mref \<Rightarrow> module_obj"
  decls :: "dref \<Rightarrow> declaration_obj"
  imps :: "iref \<Rightarrow> import_obj"
  locs :: "lref \<Rightarrow> location_obj"

definition set_import_location :: "lref option \<Rightarrow> heap \<Rightarrow> iref \<Rightarrow> heap" where
  "set_import_location l h i = h\<lparr>imps := (imps h)(i := (imps h i)\<lparr>imp_location := l\<rparr>)\<rparr>"

definition set_decl_location :: "lref option \<Rightarrow> heap \<Rightarrow> dref \<Rightarrow> heap" where
  "set_decl_location l h d = h\<lparr>decls := (decls h)(d := (decls h d)\<lparr>d_location := Present l\<rparr>)\<rparr>"

definition set_decl_module :: "mref option \<Rightarrow> heap \<Rightarrow> dref \<Rightarrow> heap" where
  "set_decl_module m h d = h\<lparr>decls := (decls h)(d := (decls h d)\<lparr>d_module := m\<rparr>)\<rparr>"

text \<open>
  \<^verbatim>\<open>Module.__init__\<close>, storing the new object at the reference \<open>self\<close>. The three loops
  run over the copied import list and over the values of the copied dictionary.
\<close>

definition Module_init ::
  "heap \<Rightarrow> mref \<Rightarrow> string \<Rightarrow> string list option \<Rightarrow> iref list \<Rightarrow> (string \<times> dref) list
     \<Rightarrow> lref option \<Rightarrow> int \<Rightarrow> heap" where
  "Module_init h self module_name exps imports_arg declarations_arg location lit =
     (let h1 = foldl (set_import_location location) h imports_arg;
          h2 = foldl (set_decl_location location) h1 (map snd declarations_arg);
          h3 = foldl (set_decl_module (Some self)) h2 (map snd declarations_arg)
      in h3\<lparr>modules := (modules h3)(self :=
            \<lparr>m_what = ''module'', m_name = module_name, m_location = location,
             m_exports = (case exps of None \<Rightarrow> Absent | Some e \<Rightarrow> Present e),
             m_imports = imports_arg, m_declarations = declarations_arg,
             last_inspection_time = lit, m_cabal = Absent\<rparr>)\<rparr>)"

text \<open>
  \<^verbatim>\<open>Module.add_declaration\<close>. A module object is always true, so \<^verbatim>\<open>not d.module\<close> holds
  exactly for \<^verbatim>\<open>None\<close>; \<^verbatim>\<open>!=\<close> on modules is identity. The store is returned on the
  raising path too, since the two assignments before the \<^verbatim>\<open>raise\<close> have happened.
\<close>

definition add_declaration :: "heap \<Rightarrow> mref \<Rightarrow> dref \<Rightarrow> unit outcome \<times> heap" where
  "add_declaration h self new_declaration =
     (let h1 = (if d_module (decls h new_declaration) = None
                then set_decl_module (Some self) h new_declaration else h);
          h2 = set_decl_location (m_location (modules h1 self)) h1 new_declaration
      in if d_module (decls h2 new_declaration) \<noteq> Some self
         then (Raised (RuntimeError ''Adding declaration to other module''), h2)
         else (Returned (),
               h2\<lparr>modules := (modules h2)(self := (modules h2 self)
                    \<lparr>m_declarations :=
                        AList.update (d_name (decls h2 new_declaration)) new_declaration
                          (m_declarations (modules h2 self))\<rparr>)\<rparr>))"

subsection \<open>Objects used to run the definitions\<close>

definition blank_declaration :: "string \<Rightarrow> declaration_obj" where
  "blank_declaration n =
     \<lparr>d_what = ''declaration'', d_name = n, docs = None, imported = [], defined = None,
      d_position = None, d_module = None, d_location = Absent, variant = Plain\<rparr>"

definition blank_module :: module_obj where
  "blank_module =
     \<lparr>m_what = ''module'', m_name = '''', m_location = None, m_exports = Absent,
      m_imports = [], m_declarations = [], last_inspection_time = 0, m_cabal = Absent\<rparr>"

definition blank_import :: import_obj where
  "blank_import =
     \<lparr>imp_module = '''', is_qualified = False, import_as = None, imp_position = None,
      imp_location = None\<rparr>"

text \<open>
  A store with two locations \<^verbatim>\<open>Location('A.hs')\<close> (reference 0) and
  \<^verbatim>\<open>Location('B.hs')\<close> (reference 1) and fresh declarations \<^verbatim>\<open>Declaration('x')\<close>
  (reference 0) and \<^verbatim>\<open>Declaration('y')\<close> (reference 1).
\<close>

definition heap0 :: heap where
  "heap0 =
     \<lparr>modules = (\<lambda>_. blank_module),
      decls = (\<lambda>_. blank_declaration ''x'')(Suc 0 := blank_declaration ''y''),
      imps = (\<lambda>_. blank_import),
      locs = (\<lambda>_. Location (Some ''A.hs'') None)(Suc 0 := Location (Some ''B.hs'') None)\<rparr>"

text \<open>
  \<^verbatim>\<open>A = Module('A', location=loc0); B = Module('B', location=loc1); A.add_declaration(x)\<close>:
  module \<open>A\<close> is reference 0, module \<open>B\<close> reference 1, and \<open>x\<close> now belongs to \<open>A\<close>.
\<close>

definition heap1 :: heap where
  "heap1 =
     snd (add_declaration
       (Module_init (Module_init heap0 0 ''A'' None [] [] (Some 0) 0)
          (Suc 0) ''B'' None [] [] (Some (Suc 0)) 0) 0 0)"

text \<open>
  The invariant of one module \<open>m\<close>: every declaration in \<^verbatim>\<open>m.declarations\<close> has
  \<^verbatim>\<open>module is m\<close> and the location object of \<open>m\<close>, and every import in \<^verbatim>\<open>m.imports\<close>
  has the location object of \<open>m\<close>. No location class defines \<^verbatim>\<open>__eq__\<close>, so \<^verbatim>\<open>==\<close>
  on locations is equality of references.
\<close>

definition module_invariant :: "heap \<Rightarrow> mref \<Rightarrow> bool" where
  "module_invariant h m =
     ((\<forall>d \<in> set (map snd (m_declarations (modules h m))).
         d_module (decls h d) = Some m
         \<and> d_location (decls h d) = Present (m_location (modules h m)))
      \<and> (\<forall>i \<in> set (m_imports (modules h m)).
         imp_location (imps h i) = m_location (modules h m)))"

text \<open>
  \<^verbatim>\<open>ds = {'x': x}; A = Module('A', declarations=ds, location=loc0);
  B = Module('B', declarations=ds, location=loc1)\<close>: two modules built over one declaration
  object.
\<close>

definition heap_shared :: heap where
  "heap_shared =
     Module_init (Module_init heap0 0 ''A'' None [] [(''x'', 0)] (Some 0) 0)
       (Suc 0) ''B'' None [] [(''x'', 0)] (Some (Suc 0)) 0"


subsection \<open>Identifiers of locations\<close>

text \<open>
  \<^verbatim>\<open>Location.get_id\<close>, \<^verbatim>\<open>InstalledLocation.get_id\<close> and \<^verbatim>\<open>OtherLocation.get_id\<close>, selected
  by the class of the object. The first returns the \<^verbatim>\<open>filename\<close> field as it is (possibly
  \<^verbatim>\<open>None\<close>); the second calls \<^verbatim>\<open>package_id\<close> on the \<^verbatim>\<open>package\<close> field, which fails on
  \<^verbatim>\<open>None\<close>. The argument of \<open>AttributeError\<close> is the attribute that was looked up.
\<close>

fun get_id :: "location_obj \<Rightarrow> string option outcome" where
  "get_id (Location f p) = Returned f"
| "get_id (InstalledLocation pk d) =
     (case pk of
        None \<Rightarrow> Raised (AttributeError ''package_id'')
      | Some p \<Rightarrow> Returned (Some (format_opt (db_to_string d) @ '':'' @ package_id p)))"
| "get_id (OtherLocation s) = Returned (Some (''['' @ format_opt s @ '']''))"

subsection \<open>Identity of modules\<close>

definition bind :: "'a outcome \<Rightarrow> ('a \<Rightarrow> 'b outcome) \<Rightarrow> 'b outcome" where
  "bind x f = (case x of Raised e \<Rightarrow> Raised e | Returned v \<Rightarrow> f v)"

text \<open>Reading \<^verbatim>\<open>m.cabal\<close> and \<^verbatim>\<open>loc.filename\<close>; only the class \<^verbatim>\<open>Location\<close> has a filename.\<close>

definition get_cabal :: "module_obj \<Rightarrow> string option outcome" where
  "get_cabal M = (case m_cabal M of Absent \<Rightarrow> Raised (AttributeError ''cabal'') | Present c \<Rightarrow> Returned c)"

definition get_filename :: "location_obj \<Rightarrow> string option outcome" where
  "get_filename L =
     (case L of Location f p \<Rightarrow> Returned f | _ \<Rightarrow> Raised (AttributeError ''filename''))"

text \<open>
  \<^verbatim>\<open>same_module(l, r)\<close>, statement by statement, with the short-circuit order of \<^verbatim>\<open>and\<close>.
  Each of the three intermediate values is true exactly when the Python value is true, and
  the value returned is a \<^verbatim>\<open>bool\<close> whenever the function returns.
\<close>

definition same_module :: "heap \<Rightarrow> mref \<Rightarrow> mref \<Rightarrow> bool outcome" where
  "same_module h l r =
     (let L = modules h l; R = modules h r in
      bind (get_cabal L) (\<lambda>lc.
      bind (if truthy lc
            then bind (get_cabal R) (\<lambda>rc. Returned (truthy rc \<and> lc = rc))
            else Returned False) (\<lambda>same_cabal.
      bind (case m_location L of
              None \<Rightarrow> Returned False
            | Some ll \<Rightarrow>
                (case m_location R of
                   None \<Rightarrow> Returned False
                 | Some rl \<Rightarrow>
                     bind (get_filename (locs h ll)) (\<lambda>lf.
                     bind (get_filename (locs h rl)) (\<lambda>rf. Returned (lf = rf))))) (\<lambda>same_filename.
      bind (if \<not> truthy lc \<and> m_location L = None
            then bind (get_cabal R) (\<lambda>rc. Returned (\<not> truthy rc \<and> m_location R = None))
            else Returned False) (\<lambda>nowhere.
      Returned (m_name L = m_name R \<and> (same_cabal \<or> same_filename \<or> nowhere)))))))"

subsection \<open>Parsing package identifiers\<close>

text \<open>
  The character classes \<^verbatim>\<open>\d\<close>, \<^verbatim>\<open>\w\<close>, \<^verbatim>\<open>[\w\-]\<close> and \<^verbatim>\<open>[\d\.]\<close> of a \<^verbatim>\<open>str\<close> pattern.
  Below 256 the only decimal digits are \<^verbatim>\<open>0\<close> to \<^verbatim>\<open>9\<close>; \<^verbatim>\<open>\w\<close> is the underscore and
  every alphanumeric character, which beyond ASCII are the 71 letters, superscript digits
  and fractions of Latin-1 listed in \<open>latin1_word\<close>. \<open>upper\<close> and \<open>lower\<close> are the ranges
  \<^verbatim>\<open>A-Z\<close> and \<^verbatim>\<open>a-z\<close> of the patterns.
\<close>

definition digit :: "char \<Rightarrow> bool" where
  "digit c = (c \<in> set ''0123456789'')"

definition upper :: "char \<Rightarrow> bool" where
  "upper c = (c \<in> set ''ABCDEFGHIJKLMNOPQRSTUVWXYZ'')"

definition lower :: "char \<Rightarrow> bool" where
  "lower c = (c \<in> set ''abcdefghijklmnopqrstuvwxyz'')"

definition latin1_word :: "char \<Rightarrow> bool" where
  "latin1_word c =
     (let n = (of_char c :: nat) in
      n \<in> {0xAA, 0xB2, 0xB3, 0xB5, 0xB9, 0xBA, 0xBC, 0xBD, 0xBE}
      \<or> (0xC0 \<le> n \<and> n \<le> 0xD6) \<or> (0xD8 \<le> n \<and> n \<le> 0xF6) \<or> 0xF8 \<le> n)"

definition word_char :: "char \<Rightarrow> bool" where
  "word_char c = (upper c \<or> lower c \<or> digit c \<or> c = CHR ''_'' \<or> latin1_word c)"

definition name_char :: "char \<Rightarrow> bool" where
  "name_char c = (word_char c \<or> c = CHR ''-'')"

definition ver_char :: "char \<Rightarrow> bool" where
  "ver_char c = (digit c \<or> c = CHR ''.'')"

text \<open>
  \<^verbatim>\<open>re.match('([\w\-]+)\-([\d\.]+)', s)\<close>. The first group is greedy: it starts with the
  longest run of \<^verbatim>\<open>[\w\-]\<close> at the start of \<open>s\<close> and gives characters back one at a time
  (never below one) until a hyphen and at least one \<^verbatim>\<open>[\d\.]\<close> follow; the second group
  then takes the longest run of \<^verbatim>\<open>[\d\.]\<close>. \<open>match_name_version i s\<close> tries the lengths
  \<open>i, i - 1, \<dots>, 1\<close> for the first group. The match is not anchored at the end of \<open>s\<close>.
\<close>

fun match_name_version :: "nat \<Rightarrow> string \<Rightarrow> (string \<times> string) option" where
  "match_name_version 0 s = None"
| "match_name_version (Suc i) s =
     (case drop (Suc i) s of
        c # d # rest \<Rightarrow>
          if c = CHR ''-'' \<and> ver_char d
          then Some (take (Suc i) s, takeWhile ver_char (d # rest))
          else match_name_version i s
      | _ \<Rightarrow> match_name_version i s)"

definition re_match_name_version :: "string \<Rightarrow> (string \<times> string) option" where
  "re_match_name_version s = match_name_version (length (takeWhile name_char s)) s"

text \<open>\<^verbatim>\<open>re.match('([\w\-]+)', s)\<close>\<close>

definition re_match_name :: "string \<Rightarrow> string option" where
  "re_match_name s = (let q = takeWhile name_char s in if q = [] then None else Some q)"

definition parse_package :: "string option \<Rightarrow> package option" where
  "parse_package package_id_arg =
     (case package_id_arg of
        None \<Rightarrow> None
      | Some s \<Rightarrow>
          (case re_match_name_version s of
             Some (name, version) \<Rightarrow> Some (Package name (Some version))
           | None \<Rightarrow>
               (case re_match_name s of
                  Some name \<Rightarrow> Some (Package name None)
                | None \<Rightarrow> None)))"

text \<open>A hyphen directly followed by a digit or a dot occurs in the string.\<close>

fun hyphen_version :: "string \<Rightarrow> bool" where
  "hyphen_version (c # d # cs) = ((c = CHR ''-'' \<and> ver_char d) \<or> hyphen_version (d # cs))"
| "hyphen_version _ = False"

text \<open>
  \<^verbatim>\<open>A = Module('A', location=loc0); A2 = Module('A', location=loc0)\<close>: two modules built
  from the same name and location.
\<close>

definition heap_twins :: heap where
  "heap_twins =
     Module_init (Module_init heap0 0 ''A'' None [] [] (Some 0) 0)
       (Suc 0) ''A'' None [] [] (Some 0) 0"

subsection \<open>The background worker\<close>

text \<open>
  A job is the tuple \<^verbatim>\<open>(name, fn, args, kwargs)\<close>; the model keeps the name and what the
  call \<^verbatim>\<open>fn(*args, **kwargs)\<close> does: it returns, it raises, or it never returns. A fault is
  either an instance of \<^verbatim>\<open>Exception\<close>, with its text \<^verbatim>\<open>str(e)\<close>, or an exception outside
  that class (\<^verbatim>\<open>SystemExit\<close>, \<^verbatim>\<open>KeyboardInterrupt\<close>, \<^verbatim>\<open>GeneratorExit\<close>), which the clause
  \<^verbatim>\<open>except Exception\<close> does not catch.
\<close>

datatype fault = Exception_fault string | BaseException_fault string

datatype job_result = Returns | Raises fault | Never_returns

record job =
  job_name :: string
  job_fn :: job_result

datatype cause = Uncaught fault | Uncaught_NameError string

datatype thread_status = Alive | Terminated cause | Blocked_in_job

text \<open>
  The worker thread: the queue \<^verbatim>\<open>self.jobs\<close> (oldest job first), the state of the thread,
  the jobs whose body the thread has called, in the order of the calls, and the messages
  passed to \<^verbatim>\<open>log\<close>.
\<close>

record worker =
  jobs :: "job list"
  status :: thread_status
  started :: "job list"
  logged :: "string list"

definition Worker_init :: worker where
  "Worker_init = \<lparr>jobs = [], status = Alive, started = [], logged = []\<rparr>"

text \<open>\<^verbatim>\<open>Worker.async\<close>: \<^verbatim>\<open>Queue.put\<close> appends at the end of the queue.\<close>

definition async :: "worker \<Rightarrow> job \<Rightarrow> worker" where
  "async w j = w\<lparr>jobs := jobs w @ [j]\<rparr>"

text \<open>
  \<^verbatim>\<open>run_async\<close> with the module-level variable \<^verbatim>\<open>worker\<close>, \<^verbatim>\<open>None\<close> until the first call.
\<close>

definition run_async :: "worker option \<Rightarrow> job \<Rightarrow> worker option" where
  "run_async g j = Some (async (case g of None \<Rightarrow> Worker_init | Some w \<Rightarrow> w) j)"

text \<open>
  One pass through the body of \<^verbatim>\<open>while True\<close> in \<^verbatim>\<open>Worker.run\<close>. \<^verbatim>\<open>Queue.get\<close> takes the
  oldest job and blocks on an empty queue. When the job raises an \<^verbatim>\<open>Exception\<close> the
  handler is entered and evaluates \<^verbatim>\<open>log(...)\<close>; \<^verbatim>\<open>worker.py\<close> imports \<^verbatim>\<open>threading\<close> and
  \<^verbatim>\<open>queue\<close> only and binds neither \<^verbatim>\<open>log\<close> nor \<^verbatim>\<open>log_debug\<close>, so the handler raises
  \<^verbatim>\<open>NameError\<close> before anything is logged, the exception leaves \<^verbatim>\<open>run\<close> and the thread
  ends.
\<close>

definition run_iteration :: "worker \<Rightarrow> worker" where
  "run_iteration w =
     (if status w \<noteq> Alive then w
      else case jobs w of
        [] \<Rightarrow> w
      | j # rest \<Rightarrow>
          (let w1 = w\<lparr>jobs := rest, started := started w @ [j]\<rparr> in
           case job_fn j of
             Returns \<Rightarrow> w1
           | Never_returns \<Rightarrow> w1\<lparr>status := Blocked_in_job\<rparr>
           | Raises (Exception_fault detail) \<Rightarrow>
               w1\<lparr>status := Terminated (Uncaught_NameError ''log'')\<rparr>
           | Raises (BaseException_fault detail) \<Rightarrow>
               w1\<lparr>status := Terminated (Uncaught (BaseException_fault detail))\<rparr>))"

text \<open>
  A run of the system is a sequence of events: a caller submits a job, or the worker
  thread makes one pass through its loop.
\<close>

datatype event = Submit job | Iterate

fun exec :: "event list \<Rightarrow> worker \<Rightarrow> worker" where
  "exec [] w = w"
| "exec (Submit j # es) w = exec es (async w j)"
| "exec (Iterate # es) w = exec es (run_iteration w)"




definition job_exit :: job where
  "job_exit = \<lparr>job_name = ''J1'', job_fn = Raises (BaseException_fault ''SystemExit'')\<rparr>"

definition job_boom :: job where
  "job_boom = \<lparr>job_name = ''J2'', job_fn = Raises (Exception_fault ''boom'')\<rparr>"

definition job_ok :: job where
  "job_ok = \<lparr>job_name = ''J3'', job_fn = Returns\<rparr>"


subsection \<open>Escaping\<close>

text \<open>
  \<^verbatim>\<open>html.escape(s, quote)\<close> replaces \<^verbatim>\<open>&\<close>, \<^verbatim>\<open><\<close> and \<^verbatim>\<open>>\<close>, and with \<open>quote\<close> also the
  double and the single quote. No replacement text contains a character that a later
  replacement looks for, so the chain of \<^verbatim>\<open>str.replace\<close> calls is a map over the
  characters.
\<close>

definition escape_char :: "bool \<Rightarrow> char \<Rightarrow> string" where
  "escape_char quote c =
     (if c = CHR ''&'' then ''&amp;''
      else if c = CHR ''<'' then ''&lt;''
      else if c = CHR ''>'' then ''&gt;''
      else if quote \<and> c = CHR 0x22 then ''&quot;''
      else if quote \<and> c = CHR 0x27 then ''&#x27;''
      else [c])"

definition html_escape :: "bool \<Rightarrow> string \<Rightarrow> string" where
  "html_escape quote s = concat (map (escape_char quote) s)"

text \<open>\<^verbatim>\<open>sep.join(xs)\<close>\<close>

fun join :: "string \<Rightarrow> string list \<Rightarrow> string" where
  "join sep [] = []"
| "join sep [x] = x"
| "join sep (x # y # ys) = x @ sep @ join sep (y # ys)"

text \<open>
  \<^verbatim>\<open>str.splitlines()\<close>: a line ends at \<^verbatim>\<open>\n\<close>, \<^verbatim>\<open>\r\<close>, \<^verbatim>\<open>\r\n\<close>, \<^verbatim>\<open>\v\<close>, \<^verbatim>\<open>\f\<close>,
  \<^verbatim>\<open>\x1c\<close>, \<^verbatim>\<open>\x1d\<close>, \<^verbatim>\<open>\x1e\<close> or \<^verbatim>\<open>\x85\<close>; the line ends are dropped and a final
  line end opens no further line. The first argument is the line read so far.
\<close>

definition line_end :: "char \<Rightarrow> bool" where
  "line_end c =
     (c \<in> {CHR 0x0A, CHR 0x0D, CHR 0x0B, CHR 0x0C, CHR 0x1C, CHR 0x1D, CHR 0x1E, CHR 0x85})"

fun splitlines_from :: "string \<Rightarrow> string \<Rightarrow> string list" where
  "splitlines_from cur [] = (if cur = [] then [] else [cur])"
| "splitlines_from cur [c] = (if line_end c then [cur] else [cur @ [c]])"
| "splitlines_from cur (c # d # cs) =
     (if c = CHR 0x0D \<and> d = CHR 0x0A then cur # splitlines_from [] cs
      else if line_end c then cur # splitlines_from [] (d # cs)
      else splitlines_from (cur @ [c]) (d # cs))"

definition splitlines :: "string \<Rightarrow> string list" where
  "splitlines txt = splitlines_from [] txt"

text \<open>The class \<^verbatim>\<open>\s\<close> of a \<^verbatim>\<open>str\<close> pattern: the white space below 256.\<close>

definition space_char :: "char \<Rightarrow> bool" where
  "space_char c =
     (c \<in> {CHR '' '', CHR 0x09, CHR 0x0A, CHR 0x0B, CHR 0x0C, CHR 0x0D,
            CHR 0x1C, CHR 0x1D, CHR 0x1E, CHR 0x1F, CHR 0x85, CHR 0xA0})"

text \<open>
  \<^verbatim>\<open>escape_text\<close>: on every line the leading run of white space (\<^verbatim>\<open>m.end()\<close> characters)
  becomes as many \<^verbatim>\<open>&nbsp;\<close>, the rest of the line is escaped, and the lines are joined
  with \<^verbatim>\<open><br>\<close>.
\<close>

definition escape_line :: "string \<Rightarrow> string" where
  "escape_line ln =
     (let lead = takeWhile space_char ln in
      if lead \<noteq> []
      then concat (replicate (length lead) ''&nbsp;'') @ html_escape False (drop (length lead) ln)
      else html_escape False ln)"

definition escape_text :: "string \<Rightarrow> string" where
  "escape_text txt = join ''<br>'' (map escape_line (splitlines txt))"

subsection \<open>Formatting of type expressions\<close>

text \<open>The format strings \<^verbatim>\<open><span class="{0}">{1}</span>\<close> and \<^verbatim>\<open><a href="{0}">{1}</a>\<close>.\<close>

definition span :: "string \<Rightarrow> string \<Rightarrow> string" where
  \<open>span cls body = ''<span class="'' @ cls @ ''">'' @ body @ ''</span>''\<close>

definition anchor :: "string \<Rightarrow> string \<Rightarrow> string" where
  \<open>anchor href body = ''<a href="'' @ href @ ''">'' @ body @ ''</a>''\<close>

definition operator_prefix :: "string \<Rightarrow> bool" where
  "operator_prefix s = (take 2 s \<in> {''->'', ''=>'', ''::''})"

text \<open>
  \<^verbatim>\<open>re.search(r'([a-zA-Z]\w*)|(->|=>|::)', expr)\<close>: the leftmost position where one of the
  alternatives matches, the first alternative tried first and taking the longest run of
  word characters. The result is \<^verbatim>\<open>expr[0:m.start()]\<close>, \<^verbatim>\<open>expr[m.start():m.end()]\<close>,
  \<^verbatim>\<open>expr[m.end():]\<close> and whether group 1 matched.
\<close>

fun re_search_token :: "string \<Rightarrow> (string \<times> string \<times> string \<times> bool) option" where
  "re_search_token [] = None"
| "re_search_token (c # cs) =
     (if upper c \<or> lower c
      then Some ([], c # takeWhile word_char cs, dropWhile word_char cs, True)
      else if operator_prefix (c # cs)
      then Some ([], take 2 (c # cs), drop 2 (c # cs), False)
      else (case re_search_token cs of
              None \<Rightarrow> None
            | Some (pre, e, post, g1) \<Rightarrow> Some (c # pre, e, post, g1)))"

function format_type :: "string \<Rightarrow> string" where
  "format_type expr =
     (if expr = [] then expr
      else case re_search_token expr of
        Some (pre, e, post, g1) \<Rightarrow>
          html_escape False pre
          @ span (if g1 then (if upper (hd e) then ''type'' else ''tyvar'') else ''operator'')
              (html_escape False e)
          @ format_type post
      | None \<Rightarrow> html_escape False expr)"
  by pat_completeness auto
termination
proof (relation "measure length")
  show "wf (measure length)" by simp
next
  fix expr :: string and x2 pre y e ya post g1
  assume "re_search_token expr = Some x2" and "(pre, y) = x2" and "(e, ya) = y"
    and "(post, g1) = ya"
  then have s: "re_search_token expr = Some (pre, e, post, g1)" by simp
  have "\<And>b m a g. re_search_token expr = Some (b, m, a, g) \<Longrightarrow> length a < length expr"
  proof (induction expr)
    case Nil
    then show ?case by simp
  next
    case (Cons c cs)
    show ?case
    proof (cases "upper c \<or> lower c")
      case True
      with Cons.prems have "a = dropWhile word_char cs" by auto
      then show ?thesis by (simp add: le_imp_less_Suc length_dropWhile_le)
    next
      case False
      show ?thesis
      proof (cases "operator_prefix (c # cs)")
        case True
        with False Cons.prems have "a = drop 2 (c # cs)" by auto
        then show ?thesis by simp
      next
        case op: False
        with False Cons.prems obtain b' where "re_search_token cs = Some (b', m, a, g)"
          by (auto split: option.splits)
        then have "length a < length cs" by (rule Cons.IH)
        then show ?thesis by simp
      qed
    qed
  qed
  from this [OF s] show "(post, expr) \<in> measure length" by simp
qed

declare format_type.simps [simp del]

text \<open>
  No token of \<^verbatim>\<open>format_type\<close> starts inside the first string when the second follows it:
  none of its characters is a letter, and at none of them \<^verbatim>\<open>->\<close>, \<^verbatim>\<open>=>\<close> or \<^verbatim>\<open>::\<close> starts.
\<close>

fun no_token :: "string \<Rightarrow> string \<Rightarrow> bool" where
  "no_token [] nxt = True"
| "no_token (c # cs) nxt =
     (\<not> upper c \<and> \<not> lower c \<and> \<not> operator_prefix (c # cs @ nxt) \<and> no_token cs nxt)"

subsection \<open>Text forms of positions and locations\<close>

text \<open>\<^verbatim>\<open>str(n)\<close> for an integer.\<close>

definition digit_of :: "nat \<Rightarrow> char" where
  "digit_of n = ''0123456789'' ! (n mod 10)"

function str_nat :: "nat \<Rightarrow> string" where
  "str_nat n = (if n < 10 then [digit_of n] else str_nat (n div 10) @ [digit_of (n mod 10)])"
  by pat_completeness auto
termination
  by (relation "measure (\<lambda>n. n)") auto

definition str_int :: "int \<Rightarrow> string" where
  "str_int i = (if i < 0 then ''-'' @ str_nat (nat (- i)) else str_nat (nat i))"

text \<open>\<^verbatim>\<open>Position.to_string\<close>\<close>

definition position_to_string :: "position \<Rightarrow> string" where
  "position_to_string p =
     (case column p of
        None \<Rightarrow> str_int (line p)
      | Some c \<Rightarrow> join '':'' [str_int (line p), str_int c])"

text \<open>
  \<^verbatim>\<open>str(loc)\<close>, that is \<^verbatim>\<open>to_string()\<close> of the class of \<open>loc\<close>. \<^verbatim>\<open>Location.__str__\<close> returns
  the \<^verbatim>\<open>filename\<close> field, and Python raises \<^verbatim>\<open>TypeError\<close> when \<^verbatim>\<open>__str__\<close> returns
  \<^verbatim>\<open>None\<close>. \<^verbatim>\<open>str(None)\<close> is \<^verbatim>\<open>'None'\<close>.
\<close>

definition location_str :: "location_obj option \<Rightarrow> string outcome" where
  "location_str loc =
     (case loc of
        None \<Rightarrow> Returned ''None''
      | Some (Location f p) \<Rightarrow>
          (case f of None \<Rightarrow> Raised (TypeError ''__str__ returned non-string'')
           | Some s \<Rightarrow> Returned s)
      | Some (InstalledLocation pk d) \<Rightarrow>
          (case pk of None \<Rightarrow> Raised (AttributeError ''package_id'')
           | Some p \<Rightarrow> Returned (package_id p @ '' in '' @ format_opt (db_to_string d)))
      | Some (OtherLocation s) \<Rightarrow> Returned (if truthy s then format_opt s else []))"

text \<open>\<^verbatim>\<open>source_location(loc, pos)\<close>; a \<^verbatim>\<open>Position\<close> object is always true.\<close>

definition source_location :: "location_obj option \<Rightarrow> position option \<Rightarrow> string outcome" where
  "source_location loc pos =
     (case pos of
        None \<Rightarrow> location_str loc
      | Some p \<Rightarrow> bind (location_str loc) (\<lambda>s. Returned (join '':'' [s, position_to_string p])))"

subsection \<open>Declarations: provenance and popups\<close>

text \<open>\<^verbatim>\<open>Declaration.defined_module\<close>: \<^verbatim>\<open>self.defined or self.module\<close>.\<close>

definition defined_module :: "declaration_obj \<Rightarrow> mref option" where
  "defined_module D = (case defined D of Some m \<Rightarrow> Some m | None \<Rightarrow> d_module D)"

definition deref :: "heap \<Rightarrow> lref option \<Rightarrow> location_obj option" where
  "deref h l = map_option (locs h) l"

text \<open>\<^verbatim>\<open>type(x) == Location\<close>\<close>

definition is_Location :: "location_obj option \<Rightarrow> bool" where
  "is_Location loc = (case loc of Some (Location f p) \<Rightarrow> True | _ \<Rightarrow> False)"

text \<open>
  \<^verbatim>\<open>Declaration.by_source\<close> reads \<^verbatim>\<open>self.defined_module().location\<close>, which fails when the
  declaration has neither a defining nor an owning module.
\<close>

definition by_source :: "heap \<Rightarrow> dref \<Rightarrow> bool outcome" where
  "by_source h d =
     (case defined_module (decls h d) of
        None \<Rightarrow> Raised (AttributeError ''location'')
      | Some m \<Rightarrow> Returned (is_Location (deref h (m_location (modules h m)))))"

definition has_source_location :: "heap \<Rightarrow> dref \<Rightarrow> bool outcome" where
  "has_source_location h d =
     bind (by_source h d) (\<lambda>b. Returned (b \<and> d_position (decls h d) \<noteq> None))"

definition get_source_location :: "heap \<Rightarrow> dref \<Rightarrow> string option outcome" where
  "get_source_location h d =
     bind (has_source_location h d) (\<lambda>b.
       if b
       then (case defined_module (decls h d) of
               None \<Rightarrow> Raised (AttributeError ''location'')
             | Some m \<Rightarrow>
                 bind (source_location (deref h (m_location (modules h m)))
                         (d_position (decls h d)))
                   (\<lambda>s. Returned (Some s)))
       else Returned None)"

text \<open>\<^verbatim>\<open>Declaration.imported_names\<close>: the sorted set of the imported module names.\<close>

definition imported_names :: "heap \<Rightarrow> dref \<Rightarrow> string list" where
  "imported_names h d =
     (if imported (decls h d) \<noteq> []
      then sort (remdups (map (\<lambda>i. imp_module (imps h i)) (imported (decls h d))))
      else [])"

text \<open>
  The three \<^verbatim>\<open>popup_brief\<close> methods share the step that wraps a rendered name in a link
  when the declaration has a source location:
  \<^verbatim>\<open>if self.has_source_location(): x = '<a href="{0}">{1}</a>'.format(html.escape(self.get_source_location()), x)\<close>.
  \<^verbatim>\<open>html.escape\<close> is called with its default \<^verbatim>\<open>quote=True\<close> here, and fails on \<^verbatim>\<open>None\<close>.
\<close>

definition link_if_source :: "heap \<Rightarrow> dref \<Rightarrow> string \<Rightarrow> string outcome" where
  "link_if_source h d info =
     bind (has_source_location h d) (\<lambda>b.
       if b
       then bind (get_source_location h d) (\<lambda>loc.
              case loc of
                None \<Rightarrow> Raised (AttributeError ''replace'')
              | Some s \<Rightarrow> Returned (anchor (html_escape True s) info))
       else Returned info)"

text \<open>\<^verbatim>\<open>Declaration.popup_brief\<close>\<close>

definition Declaration_popup_brief :: "heap \<Rightarrow> dref \<Rightarrow> string outcome" where
  "Declaration_popup_brief h d =
     link_if_source h d (span ''function'' (html_escape False (d_name (decls h d))))"

text \<open>\<^verbatim>\<open>Function.popup_brief\<close>; the type shown is \<^verbatim>\<open>self.type if self.type else '?'\<close>.\<close>

definition Function_popup_brief :: "heap \<Rightarrow> dref \<Rightarrow> string option \<Rightarrow> string outcome" where
  "Function_popup_brief h d function_type =
     bind (link_if_source h d (span ''function'' (html_escape False (d_name (decls h d)))))
       (\<lambda>info. Returned (info @ '' '' @ span ''operator'' ''::'' @ '' ''
                   @ format_type (case function_type of
                                    None \<Rightarrow> ''?''
                                  | Some t \<Rightarrow> if t \<noteq> [] then t else ''?'')))"

text \<open>\<^verbatim>\<open>s.split(', ')\<close>; the first argument is the piece read so far.\<close>

fun split_comma_space :: "string \<Rightarrow> string \<Rightarrow> string list" where
  "split_comma_space cur [] = [cur]"
| "split_comma_space cur [c] = [cur @ [c]]"
| "split_comma_space cur (c # d # cs) =
     (if c = CHR '','' \<and> d = CHR '' '' then cur # split_comma_space [] cs
      else split_comma_space (cur @ [c]) (d # cs))"

text \<open>
  The context part of \<^verbatim>\<open>TypeBase.popup_brief\<close>: nothing for a false context, and
  \<^verbatim>\<open>self.context.split(', ')\<close> otherwise, which a list does not have.
\<close>

definition context_parts :: "ctx \<Rightarrow> string list outcome" where
  "context_parts c =
     (case c of
        CtxNone \<Rightarrow> Returned []
      | CtxList xs \<Rightarrow> if xs = [] then Returned [] else Raised (AttributeError ''split'')
      | CtxStr s \<Rightarrow>
          if s = [] then Returned []
          else (let pieces = split_comma_space [] s in
                if length pieces = 1
                then Returned [format_type (hd pieces @ '' =>'')]
                else Returned [format_type (''('' @ join '', '' pieces @ '') =>'')]))"

text \<open>\<^verbatim>\<open>TypeBase.popup_brief\<close>\<close>

definition TypeBase_popup_brief :: "heap \<Rightarrow> dref \<Rightarrow> ctx \<Rightarrow> string list \<Rightarrow> string outcome" where
  "TypeBase_popup_brief h d c args =
     bind (context_parts c) (\<lambda>cparts.
     bind (link_if_source h d (span ''type'' (html_escape False (d_name (decls h d)))))
       (\<lambda>name_part.
     Returned (join '' ''
       ([span ''keyword'' (html_escape False (d_what (decls h d)))] @ cparts @ [name_part]
        @ (if args \<noteq> [] then [format_type (join '' '' args)] else [])))))"

text \<open>The method that \<^verbatim>\<open>self.popup_brief()\<close> selects for the class of the declaration.\<close>

definition popup_brief :: "heap \<Rightarrow> dref \<Rightarrow> string outcome" where
  "popup_brief h d =
     (case variant (decls h d) of
        Plain \<Rightarrow> Declaration_popup_brief h d
      | Function t \<Rightarrow> Function_popup_brief h d t
      | TypeBase c args df \<Rightarrow> TypeBase_popup_brief h d c args)"

text \<open>
  The reference to the defining module in \<^verbatim>\<open>Declaration.popup\<close>: the escaped module name,
  linked to the file name (inserted as it is) for a source module and to the escaped
  Hackage address for an installed one.
\<close>

definition module_ref :: "heap \<Rightarrow> mref \<Rightarrow> string outcome" where
  "module_ref h m =
     (let name_ref = html_escape False (m_name (modules h m)) in
      case deref h (m_location (modules h m)) of
        Some (Location f p) \<Rightarrow> Returned (anchor (format_opt f) name_ref)
      | Some (InstalledLocation pk pdb) \<Rightarrow>
          (case pk of
             None \<Rightarrow> Raised (AttributeError ''package_id'')
           | Some p \<Rightarrow>
               Returned (anchor
                 (html_escape True
                    (''http://hackage.haskell.org/package/'' @ package_id p @ ''/docs/''
                     @ map (\<lambda>c. if c = CHR ''.'' then CHR ''-'' else c) (m_name (modules h m))
                     @ ''.html''))
                 name_ref))
      | _ \<Rightarrow> Returned name_ref)"

text \<open>\<^verbatim>\<open>Declaration.popup\<close>\<close>

definition popup :: "heap \<Rightarrow> dref \<Rightarrow> string outcome" where
  "popup h d =
     bind (popup_brief h d) (\<lambda>brief_part.
     bind (case defined_module (decls h d) of
             None \<Rightarrow> Returned []
           | Some m \<Rightarrow>
               bind (module_ref h m) (\<lambda>r.
                 Returned [''<br>'' @ concat (replicate 4 ''&nbsp;'')
                           @ span ''comment'' (''-- Defined in '' @ r)])) (\<lambda>defined_part.
     Returned (concat
       ([''<p>'', brief_part]
        @ (if imported_names h d \<noteq> []
           then [''<br>'' @ concat (replicate 4 ''&nbsp;'')
                 @ span ''comment'' (''-- Imported from ''
                     @ html_escape False (join '', '' (imported_names h d)))]
           else [])
        @ defined_part
        @ [''</p>'']
        @ (case docs (decls h d) of
             None \<Rightarrow> []
           | Some t \<Rightarrow> if t \<noteq> [] then [''<p>'' @ span ''docs'' (escape_text t) @ ''</p>''] else [])))))"

subsection \<open>Well-formed popup markup\<close>

text \<open>
  Text of a popup is markup when it consists of characters other than \<^verbatim>\<open><\<close>, \<^verbatim>\<open>>\<close> and
  \<^verbatim>\<open>&\<close>, of the entities \<^verbatim>\<open>&amp;\<close>, \<^verbatim>\<open>&lt;\<close>, \<^verbatim>\<open>&gt;\<close>, \<^verbatim>\<open>&nbsp;\<close>, and of the tags the
  renderer writes: paragraph and line break tags, span tags with one of its seven classes,
  and anchor tags whose address is either escaped (no \<^verbatim>\<open><\<close>, \<^verbatim>\<open>>\<close>, quote or bare \<^verbatim>\<open>&\<close>)
  or one of the addresses in \<open>F\<close>, inserted as it is.
\<close>

definition text_char :: "char \<Rightarrow> bool" where
  "text_char c = (c \<noteq> CHR ''<'' \<and> c \<noteq> CHR ''>'' \<and> c \<noteq> CHR ''&'')"

definition attr_char :: "char \<Rightarrow> bool" where
  "attr_char c = (text_char c \<and> c \<noteq> CHR 0x22 \<and> c \<noteq> CHR 0x27)"

inductive escaped_attr :: "string \<Rightarrow> bool" where
  attr_nil: "escaped_attr []"
| attr_chr: "attr_char c \<Longrightarrow> escaped_attr s \<Longrightarrow> escaped_attr (c # s)"
| attr_ent: "e \<in> {''&amp;'', ''&lt;'', ''&gt;'', ''&quot;'', ''&#x27;''} \<Longrightarrow> escaped_attr s
             \<Longrightarrow> escaped_attr (e @ s)"

inductive renderer_tag :: "string set \<Rightarrow> string \<Rightarrow> bool" for F :: "string set" where
  tag_fixed: "t \<in> {''<p>'', ''</p>'', ''<br>'', ''</span>'', ''</a>''} \<Longrightarrow> renderer_tag F t"
| tag_span: \<open>cls \<in> {''function'', ''comment'', ''docs'', ''keyword'', ''type'', ''tyvar'', ''operator''}
             \<Longrightarrow> renderer_tag F (''<span class="'' @ cls @ ''">'')\<close>
| tag_link: \<open>escaped_attr u \<Longrightarrow> renderer_tag F (''<a href="'' @ u @ ''">'')\<close>
| tag_verbatim: \<open>u \<in> F \<Longrightarrow> renderer_tag F (''<a href="'' @ u @ ''">'')\<close>

inductive markup :: "string set \<Rightarrow> string \<Rightarrow> bool" for F :: "string set" where
  markup_nil: "markup F []"
| markup_chr: "text_char c \<Longrightarrow> markup F s \<Longrightarrow> markup F (c # s)"
| markup_ent: "e \<in> {''&amp;'', ''&lt;'', ''&gt;'', ''&nbsp;''} \<Longrightarrow> markup F s \<Longrightarrow> markup F (e @ s)"
| markup_tag: "renderer_tag F t \<Longrightarrow> markup F s \<Longrightarrow> markup F (t @ s)"

text \<open>
  The addresses that \<^verbatim>\<open>popup\<close> inserts without escaping: the file name of the defining
  module of the declaration, when that module has a source location.
\<close>

definition verbatim_hrefs :: "heap \<Rightarrow> dref \<Rightarrow> string set" where
  "verbatim_hrefs h d =
     (case defined_module (decls h d) of
        None \<Rightarrow> {}
      | Some m \<Rightarrow>
          (case deref h (m_location (modules h m)) of
             Some (Location f p) \<Rightarrow> {format_opt f}
           | _ \<Rightarrow> {}))"

text \<open>
  A function \<^verbatim>\<open><$>\<close> with a type, documentation, a position and one import, owned by
  the module \<^verbatim>\<open>Data.Foo\<close> at the source location \<^verbatim>\<open>A.hs\<close>.
\<close>

definition heap_popup :: heap where
  "heap_popup =
     \<lparr>modules = (\<lambda>_. blank_module\<lparr>m_name := ''Data.Foo'', m_location := Some 0\<rparr>),
      decls = (\<lambda>_. \<lparr>d_what = ''function'', d_name = ''<$>'', docs = Some ''map & co'',
                   imported = [0], defined = None,
                   d_position = Some \<lparr>line = 3, column = Some 7\<rparr>, d_module = Some 0,
                   d_location = Present (Some 0), variant = Function (Some ''(a -> b) -> f a'')\<rparr>),
      imps = (\<lambda>_. blank_import\<lparr>imp_module := ''Data.Functor''\<rparr>),
      locs = (\<lambda>_. Location (Some ''A.hs'') None)\<rparr>"

text \<open>
  A declaration \<^verbatim>\<open><$>\<close> without position, owned by the module \<^verbatim>\<open>M\<close> at the source
  location \<^verbatim>\<open>Location('a<b.hs')\<close>.
\<close>

definition heap_rawfile :: heap where
  "heap_rawfile =
     \<lparr>modules = (\<lambda>_. blank_module\<lparr>m_name := ''M'', m_location := Some 0\<rparr>),
      decls = (\<lambda>_. (blank_declaration ''<$>'')\<lparr>d_module := Some 0\<rparr>),
      imps = (\<lambda>_. blank_import),
      locs = (\<lambda>_. Location (Some ''a<b.hs'') None)\<rparr>"

section \<open>Ownership of declarations\<close>

lemma add_declaration_raises:
  assumes "d_module (decls h d) = Some m2" and "m2 \<noteq> m"
  shows "fst (add_declaration h m d) = Raised (RuntimeError ''Adding declaration to other module'')"
    and "modules (snd (add_declaration h m d)) = modules h"
    and "decls (snd (add_declaration h m d)) =
           (decls h)(d := (decls h d)\<lparr>d_location := Present (m_location (modules h m))\<rparr>)"
  using assms
  by (simp_all add: add_declaration_def set_decl_location_def set_decl_module_def Let_def)

lemma add_declaration_returns:
  assumes "d_module (decls h d) = None \<or> d_module (decls h d) = Some m"
  shows "fst (add_declaration h m d) = Returned ()"
    and "m_declarations (modules (snd (add_declaration h m d)) m) =
           AList.update (d_name (decls h d)) d (m_declarations (modules h m))"
    and "decls (snd (add_declaration h m d)) =
           (decls h)(d := (decls h d)\<lparr>d_module := Some m,
                                       d_location := Present (m_location (modules h m))\<rparr>)"
  using assms
  by (auto simp add: add_declaration_def set_decl_location_def set_decl_module_def Let_def
      fun_eq_iff)

lemma heap1_facts:
  "d_module (decls heap1 0) = Some 0"
  "d_module (decls heap1 (Suc 0)) = None"
  "m_location (modules heap1 0) = Some 0"
  "m_location (modules heap1 (Suc 0)) = Some (Suc 0)"
  "m_declarations (modules heap1 0) = [(''x'', 0)]"
  "m_declarations (modules heap1 (Suc 0)) = []"
  "d_location (decls heap1 0) = Present (Some 0)"
  "d_name (decls heap1 0) = ''x''"
  "d_name (decls heap1 (Suc 0)) = ''y''"
  by (simp_all add: heap1_def heap0_def add_declaration_def Module_init_def
      set_decl_location_def set_decl_module_def blank_declaration_def Let_def)

text \<open>
  Claim C3. When the declaration \<open>d\<close> already belongs to a module \<open>m2\<close> other than \<open>m\<close>,
  \<^verbatim>\<open>add_declaration\<close> on \<open>m\<close> raises \<^verbatim>\<open>RuntimeError("Adding declaration to other module")\<close>
  and the dictionary \<^verbatim>\<open>m.declarations\<close> is what it was; when the module field of \<open>d\<close> is
  \<^verbatim>\<open>None\<close> or already \<open>m\<close>, the call returns and \<^verbatim>\<open>m.declarations\<close> maps the name of \<open>d\<close>
  to \<open>d\<close>.
\<close>

theorem add_declaration_ownership:
  "(\<forall>m2. d_module (decls h d) = Some m2 \<and> m2 \<noteq> m \<longrightarrow>
      fst (add_declaration h m d) = Raised (RuntimeError ''Adding declaration to other module'')
      \<and> m_declarations (modules (snd (add_declaration h m d)) m) = m_declarations (modules h m))
   \<and> (d_module (decls h d) = None \<or> d_module (decls h d) = Some m \<longrightarrow>
      fst (add_declaration h m d) = Returned ()
      \<and> map_of (m_declarations (modules (snd (add_declaration h m d)) m)) (d_name (decls h d))
          = Some d)"
proof (intro conjI allI impI)
  fix m2 assume a: "d_module (decls h d) = Some m2 \<and> m2 \<noteq> m"
  then show "fst (add_declaration h m d) = Raised (RuntimeError ''Adding declaration to other module'')"
    using add_declaration_raises(1) by blast
  from a show "m_declarations (modules (snd (add_declaration h m d)) m) = m_declarations (modules h m)"
    using add_declaration_raises(2) [of h d m2 m] by simp
next
  assume a: "d_module (decls h d) = None \<or> d_module (decls h d) = Some m"
  then show "fst (add_declaration h m d) = Returned ()"
    by (rule add_declaration_returns(1))
  from a show "map_of (m_declarations (modules (snd (add_declaration h m d)) m)) (d_name (decls h d)) = Some d"
    by (simp add: add_declaration_returns(2) update_conv')
qed

theorem add_declaration_ownership_witness:
  "d_module (decls heap1 0) = Some 0 \<and> (0::nat) \<noteq> Suc 0
   \<and> fst (add_declaration heap1 (Suc 0) 0) = Raised (RuntimeError ''Adding declaration to other module'')
   \<and> m_declarations (modules (snd (add_declaration heap1 (Suc 0) 0)) (Suc 0)) = []
   \<and> d_module (decls heap1 (Suc 0)) = None
   \<and> fst (add_declaration heap1 0 (Suc 0)) = Returned ()
   \<and> map_of (m_declarations (modules (snd (add_declaration heap1 0 (Suc 0))) 0)) ''y'' = Some (Suc 0)"
  using add_declaration_ownership [of heap1 0 "Suc 0"] add_declaration_ownership [of heap1 "Suc 0" 0]
  by (simp add: heap1_facts)

text \<open>
  Claim C10. On the raising path of \<^verbatim>\<open>add_declaration\<close> (the declaration belongs to another
  module \<open>m2\<close>) the assignment \<^verbatim>\<open>new_declaration.location = self.location\<close> has already
  happened: the call raises, \<^verbatim>\<open>m.declarations\<close> is what it was, and the location field of the
  declaration now holds the location of \<open>m\<close>.
\<close>

theorem add_declaration_failure_overwrites_location:
  "d_module (decls h d) = Some m2 \<and> m2 \<noteq> m \<longrightarrow>
     fst (add_declaration h m d) = Raised (RuntimeError ''Adding declaration to other module'')
     \<and> m_declarations (modules (snd (add_declaration h m d)) m) = m_declarations (modules h m)
     \<and> d_location (decls (snd (add_declaration h m d)) d) = Present (m_location (modules h m))"
proof
  assume a: "d_module (decls h d) = Some m2 \<and> m2 \<noteq> m"
  then have "fst (add_declaration h m d) = Raised (RuntimeError ''Adding declaration to other module'')"
    and "modules (snd (add_declaration h m d)) = modules h"
    and "decls (snd (add_declaration h m d)) =
           (decls h)(d := (decls h d)\<lparr>d_location := Present (m_location (modules h m))\<rparr>)"
    using add_declaration_raises [of h d m2 m] by blast+
  then show "fst (add_declaration h m d) = Raised (RuntimeError ''Adding declaration to other module'')
     \<and> m_declarations (modules (snd (add_declaration h m d)) m) = m_declarations (modules h m)
     \<and> d_location (decls (snd (add_declaration h m d)) d) = Present (m_location (modules h m))"
    by simp
qed

theorem add_declaration_failure_overwrites_location_witness:
  "d_module (decls heap1 0) = Some 0 \<and> (0::nat) \<noteq> Suc 0
   \<and> d_location (decls heap1 0) = Present (Some 0)
   \<and> fst (add_declaration heap1 (Suc 0) 0) = Raised (RuntimeError ''Adding declaration to other module'')
   \<and> m_declarations (modules (snd (add_declaration heap1 (Suc 0) 0)) (Suc 0)) = []
   \<and> d_location (decls (snd (add_declaration heap1 (Suc 0) 0)) 0) = Present (Some (Suc 0))"
  using add_declaration_failure_overwrites_location [of heap1 0 0 "Suc 0"]
  by (simp add: heap1_facts)

section \<open>The module invariant\<close>

lemma foldl_set_import_location:
  "foldl (set_import_location l) h xs =
     h\<lparr>imps := (\<lambda>i. if i \<in> set xs then (imps h i)\<lparr>imp_location := l\<rparr> else imps h i)\<rparr>"
  by (induction xs arbitrary: h) (auto simp add: set_import_location_def fun_eq_iff)

lemma foldl_set_decl_location:
  "foldl (set_decl_location l) h xs =
     h\<lparr>decls := (\<lambda>d. if d \<in> set xs then (decls h d)\<lparr>d_location := Present l\<rparr> else decls h d)\<rparr>"
  by (induction xs arbitrary: h) (auto simp add: set_decl_location_def fun_eq_iff)

lemma foldl_set_decl_module:
  "foldl (set_decl_module m) h xs =
     h\<lparr>decls := (\<lambda>d. if d \<in> set xs then (decls h d)\<lparr>d_module := m\<rparr> else decls h d)\<rparr>"
  by (induction xs arbitrary: h) (auto simp add: set_decl_module_def fun_eq_iff)

lemma Module_init_invariant:
  "module_invariant (Module_init h self n exps is ds l t) self"
  by (simp add: module_invariant_def Module_init_def Let_def foldl_set_import_location
      foldl_set_decl_location foldl_set_decl_module)

lemma values_update_subset:
  "snd ` set (AList.update k v al) \<subseteq> insert v (snd ` set al)"
  by (induction al) auto

lemma add_declaration_preserves_invariant:
  assumes inv: "module_invariant h m"
    and ok: "fst (add_declaration h m d) = Returned ()"
  shows "module_invariant (snd (add_declaration h m d)) m"
proof -
  have own: "d_module (decls h d) = None \<or> d_module (decls h d) = Some m"
    using ok
    by (auto simp add: add_declaration_def set_decl_location_def set_decl_module_def Let_def
        split: if_splits)
  let ?h' = "snd (add_declaration h m d)"
  have ds: "m_declarations (modules ?h' m) =
              AList.update (d_name (decls h d)) d (m_declarations (modules h m))"
    by (rule add_declaration_returns(2) [OF own])
  have dd: "decls ?h' = (decls h)(d := (decls h d)\<lparr>d_module := Some m,
              d_location := Present (m_location (modules h m))\<rparr>)"
    by (rule add_declaration_returns(3) [OF own])
  have ml: "m_location (modules ?h' m) = m_location (modules h m)"
    and mi: "m_imports (modules ?h' m) = m_imports (modules h m)"
    and ii: "imps ?h' = imps h"
    using own
    by (auto simp add: add_declaration_def set_decl_location_def set_decl_module_def Let_def)
  have sub: "\<And>x. x \<in> snd ` set (AList.update (d_name (decls h d)) d (m_declarations (modules h m)))
               \<Longrightarrow> x = d \<or> x \<in> snd ` set (m_declarations (modules h m))"
    using values_update_subset [of "d_name (decls h d)" d "m_declarations (modules h m)"]
    by blast
  have old: "\<And>x. x \<in> snd ` set (m_declarations (modules h m)) \<Longrightarrow>
               d_module (decls h x) = Some m
               \<and> d_location (decls h x) = Present (m_location (modules h m))"
    using inv by (auto simp add: module_invariant_def)
  have imps_ok: "\<And>i. i \<in> set (m_imports (modules h m)) \<Longrightarrow>
               imp_location (imps h i) = m_location (modules h m)"
    using inv by (simp add: module_invariant_def)
  have new: "\<And>x. x \<in> snd ` set (AList.update (d_name (decls h d)) d (m_declarations (modules h m)))
               \<Longrightarrow> d_module (decls ?h' x) = Some m
                 \<and> d_location (decls ?h' x) = Present (m_location (modules ?h' m))"
  proof -
    fix x
    assume "x \<in> snd ` set (AList.update (d_name (decls h d)) d (m_declarations (modules h m)))"
    then have "x = d \<or> x \<in> snd ` set (m_declarations (modules h m))"
      by (rule sub)
    then show "d_module (decls ?h' x) = Some m
                 \<and> d_location (decls ?h' x) = Present (m_location (modules ?h' m))"
      using old [of x] by (auto simp add: dd ml)
  qed
  show ?thesis
    unfolding module_invariant_def
    using new imps_ok by (auto simp add: ds ml mi ii)
qed

lemma heap_shared_facts:
  "d_module (decls heap_shared 0) = Some (Suc 0)"
  "d_module (decls heap_shared (Suc 0)) = None"
  "d_name (decls heap_shared (Suc 0)) = ''y''"
  "m_declarations (modules heap_shared 0) = [(''x'', 0)]"
  "m_location (modules heap_shared 0) = Some 0"
  by (simp_all add: heap_shared_def heap0_def Module_init_def set_decl_location_def
      set_decl_module_def blank_declaration_def Let_def)

text \<open>
  Claim C8, as stated: after construction and after every successful \<^verbatim>\<open>add_declaration\<close>,
  every declaration of the module has \<^verbatim>\<open>module is module\<close> and the module's location.
  It fails: \<^verbatim>\<open>Module.__init__\<close> adopts the declarations it is given without an
  ownership check, so after \<^verbatim>\<open>A = Module('A', declarations=ds, ...)\<close> and
  \<^verbatim>\<open>B = Module('B', declarations=ds, ...)\<close> the declaration \<open>x\<close> of \<open>A\<close> belongs to \<open>B\<close>, and the
  successful call \<^verbatim>\<open>A.add_declaration(y)\<close> leaves \<open>A\<close> with a declaration whose module is \<open>B\<close>.
\<close>

theorem module_invariant_broken_by_shared_declaration:
  "fst (add_declaration heap_shared 0 (Suc 0)) = Returned ()
   \<and> map_of (m_declarations (modules (snd (add_declaration heap_shared 0 (Suc 0))) 0)) ''x'' = Some 0
   \<and> d_module (decls (snd (add_declaration heap_shared 0 (Suc 0))) 0) = Some (Suc 0)
   \<and> \<not> module_invariant (snd (add_declaration heap_shared 0 (Suc 0))) 0"
proof -
  have own: "d_module (decls heap_shared (Suc 0)) = None \<or> d_module (decls heap_shared (Suc 0)) = Some 0"
    by (simp add: heap_shared_facts)
  note r = add_declaration_returns [OF own]
  show ?thesis
    by (simp add: r heap_shared_facts module_invariant_def)
qed

text \<open>
  Claim C8, amended. Right after \<^verbatim>\<open>Module.__init__\<close> the new module satisfies the invariant
  (its declarations have \<^verbatim>\<open>module is module\<close> and the module's location object, its imports
  have the module's location object), and a successful \<^verbatim>\<open>add_declaration\<close> on a module that
  satisfies the invariant leaves it satisfying the invariant.
\<close>

theorem module_invariant_established_and_preserved:
  "module_invariant (Module_init h0 self n exps is ds l t) self
   \<and> (module_invariant h m \<and> fst (add_declaration h m d) = Returned ()
        \<longrightarrow> module_invariant (snd (add_declaration h m d)) m)"
  using Module_init_invariant add_declaration_preserves_invariant by blast

theorem module_invariant_established_and_preserved_witness:
  "module_invariant (Module_init heap0 0 ''A'' None [0] [(''x'', 0)] (Some 0) 0) 0
   \<and> module_invariant heap1 0 \<and> fst (add_declaration heap1 0 (Suc 0)) = Returned ()
   \<and> module_invariant (snd (add_declaration heap1 0 (Suc 0))) 0"
proof -
  have own: "d_module (decls heap1 (Suc 0)) = None \<or> d_module (decls heap1 (Suc 0)) = Some 0"
    by (simp add: heap1_facts)
  have i: "module_invariant heap1 0"
    by (simp add: module_invariant_def heap1_facts) (simp add: heap1_def heap0_def
        add_declaration_def Module_init_def set_decl_location_def set_decl_module_def
        blank_module_def Let_def)
  have ok: "fst (add_declaration heap1 0 (Suc 0)) = Returned ()"
    by (rule add_declaration_returns(1) [OF own])
  show ?thesis
    using module_invariant_established_and_preserved
      [of heap0 0 "''A''" None "[0]" "[(''x'', 0)]" "Some 0" 0 heap1 0 "Suc 0"] i ok
    by simp
qed

section \<open>Identifiers of locations\<close>

text \<open>
  Claim C5, as stated: no two locations of different classes have the same identifier.
  It fails: \<^verbatim>\<open>Location.get_id\<close> returns the file name with no marker of its own, so
  \<^verbatim>\<open>Location('[hayoo]')\<close> and \<^verbatim>\<open>OtherLocation('hayoo')\<close> both have the identifier
  \<^verbatim>\<open>[hayoo]\<close>.
\<close>

theorem get_id_collision:
  "get_id (Location (Some ''[hayoo]'') None) = get_id (OtherLocation (Some ''hayoo''))"
  by (simp add: format_opt_def)

lemma format_db_not_bracket:
  assumes "\<forall>t. db_to_string d \<noteq> Some (CHR ''['' # t)"
  shows "format_opt (db_to_string d) @ '':'' @ x \<noteq> ''['' @ y"
proof (cases "db_to_string d")
  case None
  then show ?thesis by (simp add: format_opt_def)
next
  case (Some t)
  with assms show ?thesis by (cases t) (auto simp add: format_opt_def)
qed

text \<open>
  Claim C5, amended. The identifier is a function of the fields:
  \<^verbatim>\<open>InstalledLocation.get_id()\<close> is \<^verbatim>\<open>"<db>:<package-id>"\<close>, \<^verbatim>\<open>OtherLocation.get_id()\<close> is
  \<^verbatim>\<open>"[<source>]"\<close> and \<^verbatim>\<open>Location.get_id()\<close> is the file name as it is. A source location
  has the identifier of a location of another class exactly when its file name is that
  identifier, and an installed location whose database string does not start with a
  bracket (the global and the user database among them) never has the identifier of an
  \<^verbatim>\<open>OtherLocation\<close>.
\<close>

theorem get_id_format_and_collisions:
  "get_id (InstalledLocation (Some p) d)
     = Returned (Some (format_opt (db_to_string d) @ '':'' @ package_id p))
   \<and> get_id (OtherLocation s) = Returned (Some (''['' @ format_opt s @ '']''))
   \<and> get_id (Location f pr) = Returned f
   \<and> (get_id (Location f pr) = get_id (OtherLocation s) \<longleftrightarrow> f = Some (''['' @ format_opt s @ '']''))
   \<and> (get_id (Location f pr) = get_id (InstalledLocation (Some p) d)
        \<longleftrightarrow> f = Some (format_opt (db_to_string d) @ '':'' @ package_id p))
   \<and> ((\<forall>t. db_to_string d \<noteq> Some (CHR ''['' # t))
        \<longrightarrow> get_id (InstalledLocation (Some p) d) \<noteq> get_id (OtherLocation s))"
  using format_db_not_bracket [of d "package_id p" "format_opt s @ '']''"]
  by auto

theorem get_id_format_and_collisions_witness:
  "(\<forall>t. db_to_string (PackageDb True False None) \<noteq> Some (CHR ''['' # t))
   \<and> get_id (InstalledLocation (Some (Package ''base'' (Some ''4.6''))) (PackageDb True False None))
       = Returned (Some ''global-db:base-4.6'')
   \<and> get_id (OtherLocation (Some ''hayoo'')) = Returned (Some ''[hayoo]'')
   \<and> get_id (Location (Some ''A.hs'') None) = Returned (Some ''A.hs'')
   \<and> get_id (InstalledLocation (Some (Package ''base'' (Some ''4.6''))) (PackageDb True False None))
       \<noteq> get_id (OtherLocation (Some ''hayoo''))"
  using get_id_format_and_collisions
    [of "Package ''base'' (Some ''4.6'')" "PackageDb True False None" "Some ''hayoo''" "Some ''A.hs''" None]
  by (simp add: PackageDb_def db_to_string_def format_opt_def package_id_def)

section \<open>Identity of modules\<close>

lemma same_module_no_cabal:
  "m_cabal (modules h l) = Absent \<Longrightarrow> same_module h l r = Raised (AttributeError ''cabal'')"
  by (simp add: same_module_def get_cabal_def bind_def Let_def)

text \<open>
  On objects that do carry a \<^verbatim>\<open>cabal\<close> attribute the function is the relation its
  docstring describes: symmetric, reflexive on modules without a location or with a source
  location, and false for two different non-empty cabal identities unless both modules
  have a location.
\<close>

lemma same_module_symmetric_with_cabal:
  assumes "m_cabal (modules h l) = Present lc" and "m_cabal (modules h r) = Present rc"
  shows "same_module h l r = same_module h r l"
  using assms
  by (cases "m_location (modules h l)"; cases "m_location (modules h r)";
      cases "locs h (the (m_location (modules h l)))";
      cases "locs h (the (m_location (modules h r)))")
     (auto simp add: same_module_def get_cabal_def get_filename_def bind_def Let_def)

lemma same_module_reflexive_with_cabal:
  assumes "m_cabal (modules h l) = Present lc"
    and "m_location (modules h l) = None
         \<or> (\<exists>ll f p. m_location (modules h l) = Some ll \<and> locs h ll = Location f p)"
  shows "same_module h l l = Returned True"
  using assms
  by (auto simp add: same_module_def get_cabal_def get_filename_def bind_def Let_def truthy_def
      split: option.splits)

lemma same_module_differing_cabal:
  assumes "m_cabal (modules h l) = Present (Some a)" and "m_cabal (modules h r) = Present (Some b)"
    and "a \<noteq> b" and "m_location (modules h l) = None \<or> m_location (modules h r) = None"
  shows "same_module h l r = Returned False"
  using assms
  by (auto simp add: same_module_def get_cabal_def get_filename_def bind_def Let_def truthy_def
      split: option.splits)

text \<open>
  Claim C1 on the code. \<^verbatim>\<open>same_module\<close> reads \<^verbatim>\<open>l.cabal\<close> first, an attribute that
  \<^verbatim>\<open>Module.__init__\<close> never assigns: for two modules built from the same name and location
  the call raises \<^verbatim>\<open>AttributeError\<close>, in either order and on one module with itself, instead
  of returning \<^verbatim>\<open>True\<close>.
\<close>

theorem same_module_raises_on_constructed_modules:
  "same_module (Module_init (Module_init h a n e1 i1 d1 loc t1) b n e2 i2 d2 loc t2) a b
     = Raised (AttributeError ''cabal'')
   \<and> same_module (Module_init (Module_init h a n e1 i1 d1 loc t1) b n e2 i2 d2 loc t2) b a
     = Raised (AttributeError ''cabal'')
   \<and> same_module (Module_init h a n e1 i1 d1 loc t1) a a = Raised (AttributeError ''cabal'')
   \<and> same_module heap_twins 0 (Suc 0) = Raised (AttributeError ''cabal'')"
proof -
  have one: "\<And>h' x n' e i d l t. m_cabal (modules (Module_init h' x n' e i d l t) x) = Absent"
    by (simp add: Module_init_def Let_def)
  have two: "m_cabal (modules (Module_init (Module_init h a n e1 i1 d1 loc t1) b n e2 i2 d2 loc t2) a)
               = Absent"
    by (cases "a = b") (simp_all add: Module_init_def Let_def foldl_set_import_location
        foldl_set_decl_location foldl_set_decl_module)
  have three: "m_cabal (modules heap_twins 0) = Absent"
    by (simp add: heap_twins_def Module_init_def)
  show ?thesis
    by (simp add: same_module_no_cabal one two three)
qed

section \<open>Parsing package identifiers\<close>

lemma hyphen_version_Cons: "hyphen_version cs \<Longrightarrow> hyphen_version (c # cs)"
  by (cases cs) auto

lemma hyphen_version_drop: "hyphen_version (drop i s) \<Longrightarrow> hyphen_version s"
proof (induction i arbitrary: s)
  case 0
  then show ?case by simp
next
  case (Suc i)
  then show ?case by (cases s) (auto intro: hyphen_version_Cons)
qed

lemma match_name_version_none:
  "\<not> hyphen_version s \<Longrightarrow> match_name_version i s = None"
proof (induction i)
  case 0
  then show ?case by simp
next
  case (Suc i)
  have "\<And>c d rest. drop (Suc i) s = c # d # rest \<Longrightarrow> \<not> (c = CHR ''-'' \<and> ver_char d)"
  proof
    fix c d rest
    assume dr: "drop (Suc i) s = c # d # rest" and cd: "c = CHR ''-'' \<and> ver_char d"
    then have "hyphen_version (drop (Suc i) s)" by simp
    then show False using Suc.prems hyphen_version_drop by blast
  qed
  then show ?case using Suc by (auto split: list.splits)
qed

lemma ver_char_not_hyphen: "ver_char c \<Longrightarrow> c \<noteq> CHR ''-''"
  by (auto simp add: ver_char_def digit_def)

lemma match_name_version_found:
  assumes "name \<noteq> []" "version \<noteq> []" "\<forall>c\<in>set version. ver_char c"
    and "length name \<le> i" "i \<le> length (name @ ''-'' @ version)"
  shows "match_name_version i (name @ ''-'' @ version) = Some (name, version)"
  using assms(4,5)
proof (induction i)
  case 0
  with assms(1) show ?case by simp
next
  case (Suc i)
  show ?case
  proof (cases "Suc i = length name")
    case True
    obtain d rest where v: "version = d # rest" using assms(2) by (cases version) auto
    have tw: "takeWhile ver_char (d # rest) = d # rest"
      using assms(3) v by (simp add: takeWhile_eq_all_conv)
    have dr: "drop (Suc i) (name @ ''-'' @ version) = CHR ''-'' # d # rest"
      using True v by simp
    have tk: "take (Suc i) (name @ ''-'' @ version) = name"
      using True by simp
    have vd: "ver_char d" using assms(3) v by simp
    have "match_name_version (Suc i) (name @ ''-'' @ version)
            = Some (name, takeWhile ver_char (d # rest))"
      by (simp only: match_name_version.simps dr tk list.case vd simp_thms if_True)
    then show ?thesis using tw v by simp
  next
    case False
    then have gt: "length name \<le> i" using Suc.prems by simp
    have ih: "match_name_version i (name @ ''-'' @ version) = Some (name, version)"
      using Suc.IH gt Suc.prems by simp
    have dr: "drop (Suc i) (name @ ''-'' @ version) = drop (i - length name) version"
      using gt by (simp add: Suc_diff_le)
    have "\<And>c d rest. drop (i - length name) version = c # d # rest \<Longrightarrow> c \<noteq> CHR ''-''"
    proof -
      fix c d rest assume "drop (i - length name) version = c # d # rest"
      then have "c \<in> set version" by (metis in_set_dropD list.set_intros(1))
      then show "c \<noteq> CHR ''-''" using assms(3) ver_char_not_hyphen by blast
    qed
    then show ?thesis using ih by (simp only: match_name_version.simps dr) (auto split: list.splits)
  qed
qed

lemma name_prefix_run:
  assumes "\<forall>c\<in>set name. name_char c"
  shows "length name \<le> length (takeWhile name_char (name @ ''-'' @ version))"
proof -
  have "takeWhile name_char (name @ ''-'' @ version) = name @ takeWhile name_char (''-'' @ version)"
    using assms by (simp add: takeWhile_append2)
  then show ?thesis by simp
qed

lemma parse_package_name_version:
  assumes "name \<noteq> []" "\<forall>c\<in>set name. name_char c" "version \<noteq> []" "\<forall>c\<in>set version. ver_char c"
  shows "parse_package (Some (name @ ''-'' @ version)) = Some (Package name (Some version))"
proof -
  have "re_match_name_version (name @ ''-'' @ version) = Some (name, version)"
    unfolding re_match_name_version_def
    by (rule match_name_version_found [OF assms(1) assms(3) assms(4) name_prefix_run [OF assms(2)]])
       (rule length_takeWhile_le)
  then show ?thesis by (simp add: parse_package_def)
qed

lemma parse_package_bare:
  assumes "s \<noteq> []" "\<forall>c\<in>set s. name_char c" "\<not> hyphen_version s"
  shows "parse_package (Some s) = Some (Package s None)"
proof -
  have rv: "re_match_name_version s = None"
    unfolding re_match_name_version_def by (rule match_name_version_none [OF assms(3)])
  have tw: "takeWhile name_char s = s"
    using assms(2) by (simp add: takeWhile_eq_all_conv)
  have rn: "re_match_name s = Some s"
    unfolding re_match_name_def Let_def tw using assms(1) by simp
  show ?thesis by (simp add: parse_package_def rv rn)
qed

text \<open>
  Claim C4, as stated: every bare name without a version part comes back from
  \<^verbatim>\<open>parse_package(id).package_id()\<close> unchanged. It fails: the first pattern is matched at
  the start of the string only, so \<^verbatim>\<open>foo-1bar\<close>, which consists of word characters and a
  hyphen and does not end in a version, is parsed as name \<^verbatim>\<open>foo\<close> and version \<^verbatim>\<open>1\<close>.
\<close>

theorem parse_package_truncates_bare_name:
  "list_all name_char ''foo-1bar'' \<and> \<not> list_all ver_char ''1bar''
   \<and> parse_package (Some ''foo-1bar'') = Some (Package ''foo'' (Some ''1''))
   \<and> map_option package_id (parse_package (Some ''foo-1bar'')) = Some ''foo-1''"
  by (simp add: parse_package_def re_match_name_version_def name_char_def word_char_def
      upper_def lower_def digit_def ver_char_def package_id_def)

text \<open>
  Claim C4, amended. For every string \<^verbatim>\<open><name>-<version>\<close> with a non-empty name of
  word and hyphen characters and a non-empty version of digits and dots,
  \<^verbatim>\<open>parse_package(id).package_id() == id\<close>; the same holds for every non-empty bare name
  of word and hyphen characters in which no hyphen is directly followed by a digit; and
  \<^verbatim>\<open>parse_package(None)\<close> is \<^verbatim>\<open>None\<close>.
\<close>

theorem parse_package_round_trip:
  "(name \<noteq> [] \<and> list_all name_char name \<and> version \<noteq> [] \<and> list_all ver_char version
      \<longrightarrow> map_option package_id (parse_package (Some (name @ ''-'' @ version)))
            = Some (name @ ''-'' @ version))
   \<and> (s \<noteq> [] \<and> list_all name_char s \<and> \<not> hyphen_version s
      \<longrightarrow> map_option package_id (parse_package (Some s)) = Some s)
   \<and> parse_package None = None"
proof (intro conjI impI)
  assume "name \<noteq> [] \<and> list_all name_char name \<and> version \<noteq> [] \<and> list_all ver_char version"
  then have "parse_package (Some (name @ ''-'' @ version)) = Some (Package name (Some version))"
    using parse_package_name_version [of name version] by (simp add: list_all_iff)
  then show "map_option package_id (parse_package (Some (name @ ''-'' @ version)))
               = Some (name @ ''-'' @ version)"
    by (simp add: package_id_def)
next
  assume "s \<noteq> [] \<and> list_all name_char s \<and> \<not> hyphen_version s"
  then have "parse_package (Some s) = Some (Package s None)"
    using parse_package_bare [of s] by (simp add: list_all_iff)
  then show "map_option package_id (parse_package (Some s)) = Some s"
    by (simp add: package_id_def)
next
  show "parse_package None = None" by (simp add: parse_package_def)
qed

theorem parse_package_round_trip_witness:
  "''foo-bar'' \<noteq> [] \<and> list_all name_char ''foo-bar'' \<and> ''1.2.3'' \<noteq> []
   \<and> list_all ver_char ''1.2.3''
   \<and> map_option package_id (parse_package (Some ''foo-bar-1.2.3'')) = Some ''foo-bar-1.2.3''
   \<and> ''X11-xft'' \<noteq> [] \<and> list_all name_char ''X11-xft'' \<and> \<not> hyphen_version ''X11-xft''
   \<and> map_option package_id (parse_package (Some ''X11-xft'')) = Some ''X11-xft''"
  using parse_package_round_trip [of "''foo-bar''" "''1.2.3''" "''X11-xft''"]
  by (simp add: name_char_def word_char_def upper_def lower_def digit_def ver_char_def)

section \<open>The background worker\<close>





lemma run_iteration_exception:
  assumes "status w = Alive" and "jobs w = j # rest" and "job_fn j = Raises (Exception_fault detail)"
  shows "run_iteration w =
           w\<lparr>jobs := rest, started := started w @ [j],
             status := Terminated (Uncaught_NameError ''log'')\<rparr>"
  using assms by (simp add: run_iteration_def Let_def)

lemma run_iteration_logs_nothing: "logged (run_iteration w) = logged w"
  by (simp add: run_iteration_def Let_def split: list.splits job_result.splits fault.splits)

text \<open>
  A fault outside \<^verbatim>\<open>Exception\<close> is not caught by \<^verbatim>\<open>except Exception\<close>: when \<open>J1\<close> raises
  \<^verbatim>\<open>SystemExit\<close> the thread ends and the job submitted after it stays in the queue.
\<close>

lemma worker_stopped_by_base_exception:
  "started (exec [Submit job_exit, Submit job_ok, Iterate, Iterate, Iterate] Worker_init)
     = [job_exit]
   \<and> jobs (exec [Submit job_exit, Submit job_ok, Iterate, Iterate, Iterate] Worker_init)
     = [job_ok]
   \<and> status (exec [Submit job_exit, Submit job_ok, Iterate, Iterate, Iterate] Worker_init)
     = Terminated (Uncaught (BaseException_fault ''SystemExit''))"
  by (simp add: Worker_init_def async_def run_iteration_def job_exit_def job_ok_def Let_def)

text \<open>
  Claim C2 on the code. The job \<open>J2\<close> raises \<^verbatim>\<open>Exception('boom')\<close> and \<open>J3\<close> is submitted
  after it. The handler of \<^verbatim>\<open>Worker.run\<close> catches the fault and calls \<^verbatim>\<open>log\<close>, a name the
  module does not bind: the handler raises \<^verbatim>\<open>NameError\<close>, nothing is logged, the thread
  ends, and \<open>J3\<close> stays in the queue, however often the loop would have been entered.
\<close>

theorem worker_stopped_by_exception_in_job:
  "started (exec [Submit job_boom, Submit job_ok, Iterate, Iterate, Iterate] Worker_init)
     = [job_boom]
   \<and> jobs (exec [Submit job_boom, Submit job_ok, Iterate, Iterate, Iterate] Worker_init)
     = [job_ok]
   \<and> logged (exec [Submit job_boom, Submit job_ok, Iterate, Iterate, Iterate] Worker_init)
     = []
   \<and> status (exec [Submit job_boom, Submit job_ok, Iterate, Iterate, Iterate] Worker_init)
     = Terminated (Uncaught_NameError ''log'')"
  by (simp add: Worker_init_def async_def run_iteration_def job_boom_def job_ok_def Let_def)












section \<open>Formatting of type expressions\<close>

lemma escape_char_word: "word_char c \<Longrightarrow> escape_char q c = [c]"
  by (auto simp add: escape_char_def word_char_def upper_def lower_def digit_def
      latin1_word_def Let_def)

lemma html_escape_word: "list_all word_char w \<Longrightarrow> html_escape q w = w"
  by (induction w) (simp_all add: html_escape_def escape_char_word)

lemma search_none: "no_token s [] \<Longrightarrow> re_search_token s = None"
  by (induction s) simp_all

lemma search_operator:
  assumes "op \<in> {''->'', ''=>'', ''::''}"
  shows "no_token pre (op @ rest) \<Longrightarrow> re_search_token (pre @ op @ rest) = Some (pre, op, rest, False)"
proof (induction pre)
  case Nil
  from assms show ?case
    by (auto simp add: operator_prefix_def upper_def lower_def)
next
  case (Cons c cs)
  then show ?case by simp
qed

lemma search_identifier:
  assumes "upper x \<or> lower x" and "list_all word_char ws" and "takeWhile word_char rest = []"
  shows "no_token pre (x # ws @ rest)
         \<Longrightarrow> re_search_token (pre @ x # ws @ rest) = Some (pre, x # ws, rest, True)"
proof (induction pre)
  case Nil
  have tw: "takeWhile word_char (ws @ rest) = ws"
    using assms(2,3) by (simp add: takeWhile_append2 list_all_iff)
  have dw: "dropWhile word_char (ws @ rest) = rest"
    using assms(2,3) by (simp add: dropWhile_append2 list_all_iff takeWhile_eq_Nil_iff)
        (metis dropWhile_eq_self_iff takeWhile_eq_Nil_iff assms(3))
  show ?case using assms(1) tw dw by simp
next
  case (Cons c cs)
  then show ?case by simp
qed

lemma format_type_token:
  assumes "re_search_token expr = Some (pre, e, post, g1)"
  shows "format_type expr =
           html_escape False pre
           @ span (if g1 then (if upper (hd e) then ''type'' else ''tyvar'') else ''operator'')
               (html_escape False e)
           @ format_type post"
proof -
  have "expr \<noteq> []" using assms by (cases expr) simp_all
  then show ?thesis using assms by (subst format_type.simps) simp
qed

text \<open>
  Claim C7. \<^verbatim>\<open>format_type\<close> works from left to right. Text in which no token starts is
  escaped and passed through; an identifier (a letter followed by the longest run of word
  characters) is wrapped in a span of class \<^verbatim>\<open>type\<close> when its first letter is upper case
  and of class \<^verbatim>\<open>tyvar\<close> otherwise; each of \<^verbatim>\<open>->\<close>, \<^verbatim>\<open>=>\<close>, \<^verbatim>\<open>::\<close> is escaped and wrapped
  in a span of class \<^verbatim>\<open>operator\<close>; the rest of the string after the token is formatted in
  the same way; a string without any token is returned escaped. On \<^verbatim>\<open>f :: a -> B\<close> the
  result marks \<open>f\<close> and \<open>a\<close> as \<^verbatim>\<open>tyvar\<close>, \<^verbatim>\<open>::\<close> and \<^verbatim>\<open>->\<close> as \<^verbatim>\<open>operator\<close> and \<open>B\<close> as
  \<^verbatim>\<open>type\<close>, with the blanks between them kept.
\<close>

theorem format_type_classifies:
  \<open>(no_token pre (x # ws @ rest) \<and> (upper x \<or> lower x) \<and> list_all word_char ws
      \<and> takeWhile word_char rest = []
      \<longrightarrow> format_type (pre @ x # ws @ rest)
            = html_escape False pre @ span (if upper x then ''type'' else ''tyvar'') (x # ws)
              @ format_type rest)
   \<and> (no_token pre (op @ rest) \<and> op \<in> {''->'', ''=>'', ''::''}
      \<longrightarrow> format_type (pre @ op @ rest)
            = html_escape False pre @ span ''operator'' (html_escape False op) @ format_type rest)
   \<and> (no_token s [] \<longrightarrow> format_type s = html_escape False s)
   \<and> format_type ''f :: a -> B''
       = ''<span class="tyvar">f</span> <span class="operator">::</span> ''
         @ ''<span class="tyvar">a</span> <span class="operator">-&gt;</span> ''
         @ ''<span class="type">B</span>''\<close>
proof (intro conjI impI)
  assume a: "no_token pre (x # ws @ rest) \<and> (upper x \<or> lower x) \<and> list_all word_char ws
      \<and> takeWhile word_char rest = []"
  then have s: "re_search_token (pre @ x # ws @ rest) = Some (pre, x # ws, rest, True)"
    using search_identifier [of x ws rest pre] by simp
  have w: "list_all word_char (x # ws)"
    using a by (auto simp add: word_char_def)
  show "format_type (pre @ x # ws @ rest)
            = html_escape False pre @ span (if upper x then ''type'' else ''tyvar'') (x # ws)
              @ format_type rest"
    by (simp only: format_type_token [OF s] html_escape_word [OF w] if_True list.sel)
next
  assume a: "no_token pre (op @ rest) \<and> op \<in> {''->'', ''=>'', ''::''}"
  then have s: "re_search_token (pre @ op @ rest) = Some (pre, op, rest, False)"
    using search_operator [of op pre rest] by simp
  show "format_type (pre @ op @ rest)
            = html_escape False pre @ span ''operator'' (html_escape False op) @ format_type rest"
    by (simp only: format_type_token [OF s] if_False)
next
  assume a: "no_token s []"
  show "format_type s = html_escape False s"
    using search_none [OF a] by (subst format_type.simps) (simp add: html_escape_def)
next
  show \<open>format_type ''f :: a -> B''
       = ''<span class="tyvar">f</span> <span class="operator">::</span> ''
         @ ''<span class="tyvar">a</span> <span class="operator">-&gt;</span> ''
         @ ''<span class="type">B</span>''\<close>
    by code_simp
qed

theorem format_type_classifies_witness:
  \<open>no_token ''('' (CHR ''M'' # ''ap'' @ '' k'') \<and> (upper CHR ''M'' \<or> lower CHR ''M'')
   \<and> list_all word_char ''ap'' \<and> takeWhile word_char '' k'' = []
   \<and> format_type ''(Map k'' = ''('' @ span ''type'' ''Map'' @ format_type '' k''
   \<and> no_token '' '' (''=>'' @ '' b'') \<and> ''=>'' \<in> {''->'', ''=>'', ''::''}
   \<and> format_type '' => b'' = '' '' @ span ''operator'' ''=&gt;'' @ format_type '' b''
   \<and> no_token ''(<&>)'' [] \<and> format_type ''(<&>)'' = ''(&lt;&amp;&gt;)''
   \<and> list_all word_char [CHR 0xE9]
   \<and> format_type [CHR ''a'', CHR 0xE9] = span ''tyvar'' [CHR ''a'', CHR 0xE9]\<close>
  using format_type_classifies [of "''(''" "CHR ''M''" "''ap''" "'' k''" "''=>''" "''(<&>)''"]
    format_type_classifies [of "'' ''" "CHR ''x''" "[]" "'' b''" "''=>''" "[]"]
    format_type_classifies [of "[]" "CHR ''a''" "[CHR 0xE9]" "[]" "''=>''" "[]"]
  by (simp add: operator_prefix_def upper_def lower_def word_char_def digit_def
      latin1_word_def Let_def html_escape_def escape_char_def)

section \<open>Popups are well-formed markup\<close>

lemma bind_Returned:
  "bind x f = Returned s \<longleftrightarrow> (\<exists>v. x = Returned v \<and> f v = Returned s)"
  by (cases x) (simp_all add: bind_def)

lemma markup_append: "markup F a \<Longrightarrow> markup F b \<Longrightarrow> markup F (a @ b)"
proof (induction rule: markup.induct)
  case markup_nil
  then show ?case by simp
next
  case (markup_chr c s)
  then show ?case by (simp add: markup.markup_chr)
next
  case (markup_ent e s)
  then show ?case using markup.markup_ent [of e F "s @ b"] by simp
next
  case (markup_tag t s)
  then show ?case using markup.markup_tag [of F t "s @ b"] by simp
qed

lemma markup_text: "list_all text_char s \<Longrightarrow> markup F s"
  by (induction s) (simp_all add: markup_nil markup_chr)

lemma markup_entity: "e \<in> {''&amp;'', ''&lt;'', ''&gt;'', ''&nbsp;''} \<Longrightarrow> markup F e"
  using markup_ent [of e F "[]"] markup_nil [of F] by simp

lemma markup_one_tag: "renderer_tag F t \<Longrightarrow> markup F t"
  using markup_tag [of F t "[]"] markup_nil [of F] by simp

lemma markup_escape_char: "markup F (escape_char False c)"
proof -
  consider "c = CHR ''&''" | "c = CHR ''<''" | "c = CHR ''>''" | "text_char c"
    by (auto simp add: text_char_def)
  then show ?thesis
  proof cases
    case 1
    then show ?thesis by (simp add: escape_char_def markup_entity)
  next
    case 2
    then show ?thesis by (simp add: escape_char_def markup_entity)
  next
    case 3
    then show ?thesis by (simp add: escape_char_def markup_entity)
  next
    case 4
    then have "escape_char False c = [c]" by (simp add: escape_char_def text_char_def)
    then show ?thesis using 4 by (simp add: markup_chr markup_nil)
  qed
qed

lemma markup_html_escape: "markup F (html_escape False s)"
proof (induction s)
  case Nil
  then show ?case by (simp add: html_escape_def markup_nil)
next
  case (Cons c s)
  have "html_escape False (c # s) = escape_char False c @ html_escape False s"
    by (simp add: html_escape_def)
  then show ?case using Cons markup_escape_char markup_append by simp
qed

lemma escaped_attr_append: "escaped_attr a \<Longrightarrow> escaped_attr b \<Longrightarrow> escaped_attr (a @ b)"
proof (induction rule: escaped_attr.induct)
  case attr_nil
  then show ?case by simp
next
  case (attr_chr c s)
  then show ?case by (simp add: escaped_attr.attr_chr)
next
  case (attr_ent e s)
  then show ?case using escaped_attr.attr_ent [of e "s @ b"] by simp
qed

lemma escaped_attr_escape_char: "escaped_attr (escape_char True c)"
proof -
  consider "c = CHR ''&''" | "c = CHR ''<''" | "c = CHR ''>''" | "c = CHR 0x22" | "c = CHR 0x27"
    | "attr_char c"
    by (auto simp add: text_char_def attr_char_def)
  then show ?thesis
  proof cases
    case 6
    then have "escape_char True c = [c]" by (simp add: escape_char_def text_char_def attr_char_def)
    then show ?thesis using 6 by (simp add: attr_chr attr_nil)
  qed (use attr_ent [of _ "[]"] attr_nil in \<open>simp_all add: escape_char_def\<close>)
qed

lemma escaped_attr_html_escape: "escaped_attr (html_escape True s)"
proof (induction s)
  case Nil
  then show ?case by (simp add: html_escape_def attr_nil)
next
  case (Cons c s)
  have "html_escape True (c # s) = escape_char True c @ html_escape True s"
    by (simp add: html_escape_def)
  then show ?case using Cons escaped_attr_escape_char escaped_attr_append by simp
qed

lemma markup_concat: "(\<And>x. x \<in> set xs \<Longrightarrow> markup F x) \<Longrightarrow> markup F (concat xs)"
  by (induction xs) (simp_all add: markup_nil markup_append)

lemma markup_join:
  "markup F sep \<Longrightarrow> (\<And>x. x \<in> set xs \<Longrightarrow> markup F x) \<Longrightarrow> markup F (join sep xs)"
  by (induction sep xs rule: join.induct) (simp_all add: markup_nil markup_append)

lemma markup_span:
  assumes "cls \<in> {''function'', ''comment'', ''docs'', ''keyword'', ''type'', ''tyvar'', ''operator''}"
    and "markup F body"
  shows "markup F (span cls body)"
proof -
  have o: \<open>markup F (''<span class="'' @ cls @ ''">'')\<close>
    by (rule markup_one_tag) (rule tag_span [OF assms(1)])
  have c: "markup F ''</span>''"
    by (rule markup_one_tag) (simp add: tag_fixed)
  have \<open>span cls body = (''<span class="'' @ cls @ ''">'') @ body @ ''</span>''\<close>
    by (simp add: span_def)
  then show ?thesis using o c assms(2) by (simp only: markup_append)
qed

lemma markup_anchor:
  assumes "escaped_attr u \<or> u \<in> F" and "markup F body"
  shows "markup F (anchor u body)"
proof -
  have \<open>renderer_tag F (''<a href="'' @ u @ ''">'')\<close>
    using assms(1) tag_link tag_verbatim by blast
  then have o: \<open>markup F (''<a href="'' @ u @ ''">'')\<close>
    by (rule markup_one_tag)
  have c: "markup F ''</a>''"
    by (rule markup_one_tag) (simp add: tag_fixed)
  have \<open>anchor u body = (''<a href="'' @ u @ ''">'') @ body @ ''</a>''\<close>
    by (simp add: anchor_def)
  then show ?thesis using o c assms(2) by (simp only: markup_append)
qed

lemma markup_format_type: "markup F (format_type s)"
proof (induction s rule: format_type.induct)
  case (1 expr)
  show ?case
  proof (cases "expr = []")
    case True
    then show ?thesis by (subst format_type.simps) (simp add: markup_nil)
  next
    case False
    show ?thesis
    proof (cases "re_search_token expr")
      case None
      then show ?thesis
        using False by (subst format_type.simps) (simp add: markup_html_escape)
    next
      case (Some r)
      obtain pre e post g1 where r: "r = (pre, e, post, g1)" by (cases r) auto
      have ih: "markup F (format_type post)"
        by (rule "1.IH" [OF False, of r pre "(e, post, g1)" e "(post, g1)" post g1])
           (simp_all add: Some r)
      have sp: "markup F (span (if g1 then (if upper (hd e) then ''type'' else ''tyvar'')
                   else ''operator'') (html_escape False e))"
        by (rule markup_span) (simp_all add: markup_html_escape)
      have "format_type expr = html_escape False pre
              @ span (if g1 then (if upper (hd e) then ''type'' else ''tyvar'') else ''operator'')
                  (html_escape False e)
              @ format_type post"
        using Some r by (simp only: format_type_token)
      then show ?thesis
        using ih sp markup_html_escape [of F pre] by (simp only: markup_append)
    qed
  qed
qed

lemma markup_nbsp: "markup F (concat (replicate n ''&nbsp;''))"
  by (rule markup_concat) (simp add: markup_entity)

lemma markup_escape_line: "markup F (escape_line ln)"
  by (simp add: escape_line_def Let_def markup_append markup_nbsp markup_html_escape)

lemma markup_br: "markup F ''<br>''"
  by (rule markup_one_tag) (simp add: tag_fixed)

lemma markup_escape_text: "markup F (escape_text txt)"
  unfolding escape_text_def
  by (rule markup_join [OF markup_br]) (auto simp add: markup_escape_line)

lemma markup_link_if_source:
  assumes "link_if_source h d info = Returned s" and "markup F info"
  shows "markup F s"
proof -
  from assms(1) obtain b where b: "has_source_location h d = Returned b"
    and r: "(if b then bind (get_source_location h d) (\<lambda>loc.
              case loc of
                None \<Rightarrow> Raised (AttributeError ''replace'')
              | Some s \<Rightarrow> Returned (anchor (html_escape True s) info))
       else Returned info) = Returned s"
    by (auto simp add: link_if_source_def bind_Returned)
  show ?thesis
  proof (cases b)
    case False
    with r assms(2) show ?thesis by simp
  next
    case True
    with r obtain loc where "(case loc of
                None \<Rightarrow> Raised (AttributeError ''replace'')
              | Some s \<Rightarrow> Returned (anchor (html_escape True s) info)) = Returned s"
      by (auto simp add: bind_Returned)
    then obtain t where "s = anchor (html_escape True t) info"
      by (cases loc) auto
    then show ?thesis
      using markup_anchor [of "html_escape True t" F info] escaped_attr_html_escape assms(2)
      by simp
  qed
qed

lemma markup_space: "markup F '' ''"
  by (rule markup_text) (simp add: text_char_def)

lemma markup_context_parts:
  assumes "context_parts c = Returned ps" and "x \<in> set ps"
  shows "markup F x"
  using assms
  by (cases c) (auto simp add: context_parts_def Let_def markup_format_type split: if_splits)

lemma markup_popup_brief:
  assumes "popup_brief h d = Returned s"
  shows "markup F s"
proof (cases "variant (decls h d)")
  case Plain
  then have "link_if_source h d (span ''function'' (html_escape False (d_name (decls h d))))
               = Returned s"
    using assms by (simp add: popup_brief_def Declaration_popup_brief_def)
  then show ?thesis
    by (rule markup_link_if_source) (simp add: markup_span markup_html_escape)
next
  case (Function t)
  then obtain info where i: "link_if_source h d
        (span ''function'' (html_escape False (d_name (decls h d)))) = Returned info"
    and s: "s = info @ '' '' @ span ''operator'' ''::'' @ '' ''
                   @ format_type (case t of None \<Rightarrow> ''?''
                                  | Some t \<Rightarrow> if t \<noteq> [] then t else ''?'')"
    using assms by (auto simp add: popup_brief_def Function_popup_brief_def bind_Returned)
  have mi: "markup F info"
    by (rule markup_link_if_source [OF i]) (simp add: markup_span markup_html_escape)
  have mo: "markup F (span ''operator'' ''::'')"
    by (rule markup_span) (simp_all add: markup_text text_char_def)
  show ?thesis
    unfolding s using mi mo markup_space [of F] markup_format_type
    by (intro markup_append)
next
  case (TypeBase c args df)
  then obtain cparts name_part where cp: "context_parts c = Returned cparts"
    and np: "link_if_source h d (span ''type'' (html_escape False (d_name (decls h d))))
               = Returned name_part"
    and s: "s = join '' ''
       ([span ''keyword'' (html_escape False (d_what (decls h d)))] @ cparts @ [name_part]
        @ (if args \<noteq> [] then [format_type (join '' '' args)] else []))"
    using assms by (auto simp add: popup_brief_def TypeBase_popup_brief_def bind_Returned)
  have mn: "markup F name_part"
    by (rule markup_link_if_source [OF np]) (simp add: markup_span markup_html_escape)
  have mk: "markup F (span ''keyword'' (html_escape False (d_what (decls h d))))"
    by (simp add: markup_span markup_html_escape)
  show ?thesis
    unfolding s
  proof (rule markup_join [OF markup_space])
    fix x
    assume "x \<in> set ([span ''keyword'' (html_escape False (d_what (decls h d)))] @ cparts
               @ [name_part] @ (if args \<noteq> [] then [format_type (join '' '' args)] else []))"
    then consider "x = span ''keyword'' (html_escape False (d_what (decls h d)))"
      | "x \<in> set cparts" | "x = name_part" | "x = format_type (join '' '' args)"
      by (auto split: if_splits)
    then show "markup F x"
      using mk mn markup_context_parts [OF cp] markup_format_type by cases simp_all
  qed
qed

lemma markup_module_ref:
  assumes "module_ref h m = Returned r" and "defined_module (decls h d) = Some m"
  shows "markup (verbatim_hrefs h d) r"
proof (cases "deref h (m_location (modules h m))")
  case None
  then have "r = html_escape False (m_name (modules h m))"
    using assms by (simp add: module_ref_def)
  then show ?thesis by (simp only: markup_html_escape)
next
  case (Some loc)
  show ?thesis
  proof (cases loc)
    case (Location f p)
    then have "r = anchor (format_opt f) (html_escape False (m_name (modules h m)))"
      and "format_opt f \<in> verbatim_hrefs h d"
      using assms Some by (simp_all add: module_ref_def verbatim_hrefs_def)
    then show ?thesis by (simp add: markup_anchor markup_html_escape)
  next
    case (InstalledLocation pk pdb)
    then obtain u where "r = anchor (html_escape True u) (html_escape False (m_name (modules h m)))"
      using assms Some by (cases pk) (auto simp add: module_ref_def)
    then show ?thesis by (simp add: markup_anchor markup_html_escape escaped_attr_html_escape)
  next
    case (OtherLocation src)
    then have "r = html_escape False (m_name (modules h m))"
      using assms Some by (simp add: module_ref_def)
    then show ?thesis by (simp only: markup_html_escape)
  qed
qed

lemma markup_popup:
  assumes "popup h d = Returned s"
  shows "markup (verbatim_hrefs h d) s"
proof -
  let ?F = "verbatim_hrefs h d"
  from assms obtain brief_part defined_part where
    b: "popup_brief h d = Returned brief_part"
    and dp: "(case defined_module (decls h d) of
             None \<Rightarrow> Returned []
           | Some m \<Rightarrow>
               bind (module_ref h m) (\<lambda>r.
                 Returned [''<br>'' @ concat (replicate 4 ''&nbsp;'')
                           @ span ''comment'' (''-- Defined in '' @ r)])) = Returned defined_part"
    and s: "s = concat
       ([''<p>'', brief_part]
        @ (if imported_names h d \<noteq> []
           then [''<br>'' @ concat (replicate 4 ''&nbsp;'')
                 @ span ''comment'' (''-- Imported from ''
                     @ html_escape False (join '', '' (imported_names h d)))]
           else [])
        @ defined_part
        @ [''</p>'']
        @ (case docs (decls h d) of
             None \<Rightarrow> []
           | Some t \<Rightarrow> if t \<noteq> [] then [''<p>'' @ span ''docs'' (escape_text t) @ ''</p>''] else []))"
    by (auto simp add: popup_def bind_Returned)
  have mb: "markup ?F brief_part" by (rule markup_popup_brief [OF b])
  have mp: "markup ?F ''<p>''" "markup ?F ''</p>''"
    by (rule markup_one_tag, simp add: tag_fixed)+
  have mi: "markup ?F (''<br>'' @ concat (replicate 4 ''&nbsp;'')
                 @ span ''comment'' (''-- Imported from ''
                     @ html_escape False (join '', '' (imported_names h d))))"
    by (intro markup_append markup_br markup_nbsp markup_span markup_html_escape markup_text)
       (simp_all add: text_char_def)
  have md: "\<And>x. x \<in> set defined_part \<Longrightarrow> markup ?F x"
  proof -
    fix x assume x: "x \<in> set defined_part"
    show "markup ?F x"
    proof (cases "defined_module (decls h d)")
      case None
      with dp x show ?thesis by simp
    next
      case (Some m)
      with dp obtain r where r: "module_ref h m = Returned r"
        and "defined_part = [''<br>'' @ concat (replicate 4 ''&nbsp;'')
                           @ span ''comment'' (''-- Defined in '' @ r)]"
        by (auto simp add: bind_Returned)
      with x have xe: "x = ''<br>'' @ concat (replicate 4 ''&nbsp;'')
                           @ span ''comment'' (''-- Defined in '' @ r)" by simp
      have mr: "markup ?F r" by (rule markup_module_ref [OF r Some])
      show ?thesis
        unfolding xe
        by (intro markup_append markup_br markup_nbsp markup_span markup_text mr)
           (simp_all add: text_char_def)
    qed
  qed
  have mdoc: "\<And>t. markup ?F (''<p>'' @ span ''docs'' (escape_text t) @ ''</p>'')"
    by (intro markup_append mp markup_span markup_escape_text) simp
  show ?thesis
    unfolding s
  proof (rule markup_concat)
    fix x
    assume "x \<in> set ([''<p>'', brief_part]
        @ (if imported_names h d \<noteq> []
           then [''<br>'' @ concat (replicate 4 ''&nbsp;'')
                 @ span ''comment'' (''-- Imported from ''
                     @ html_escape False (join '', '' (imported_names h d)))]
           else [])
        @ defined_part
        @ [''</p>'']
        @ (case docs (decls h d) of
             None \<Rightarrow> []
           | Some t \<Rightarrow> if t \<noteq> [] then [''<p>'' @ span ''docs'' (escape_text t) @ ''</p>''] else []))"
    then consider "x = ''<p>''" | "x = brief_part"
      | "x = ''<br>'' @ concat (replicate 4 ''&nbsp;'')
                 @ span ''comment'' (''-- Imported from ''
                     @ html_escape False (join '', '' (imported_names h d)))"
      | "x \<in> set defined_part" | "x = ''</p>''"
      | t where "x = ''<p>'' @ span ''docs'' (escape_text t) @ ''</p>''"
      by (auto split: if_splits option.splits)
    then show "markup ?F x"
      using mp mb mi md mdoc by cases simp_all
  qed
qed

lemma escaped_attr_no_angle:
  "escaped_attr u \<Longrightarrow> CHR ''<'' \<notin> set u \<and> CHR ''>'' \<notin> set u \<and> CHR 0x22 \<notin> set u"
proof (induction rule: escaped_attr.induct)
  case attr_nil
  then show ?case by simp
next
  case (attr_chr c s)
  then show ?case by (auto simp add: attr_char_def text_char_def)
next
  case (attr_ent e s)
  then show ?case by auto
qed

lemma renderer_tag_angles:
  assumes "renderer_tag {} t"
  shows "count_list t CHR ''<'' = 1 \<and> count_list t CHR ''>'' = 1"
  using assms
proof (cases rule: renderer_tag.cases)
  case tag_fixed
  then show ?thesis by auto
next
  case (tag_span cls)
  then show ?thesis by auto
next
  case (tag_link u)
  then have "count_list u CHR ''<'' = 0" "count_list u CHR ''>'' = 0"
    using escaped_attr_no_angle [of u] by (simp_all add: count_list_0_iff)
  then show ?thesis using tag_link by simp
next
  case (tag_verbatim u)
  then show ?thesis by simp
qed

text \<open>
  The predicate is restrictive: in markup without verbatim addresses every \<^verbatim>\<open><\<close> opens one
  of the renderer's tags and every \<^verbatim>\<open>>\<close> closes one, so the two occur equally often.
\<close>

lemma markup_angles_balanced:
  "markup {} s \<Longrightarrow> count_list s CHR ''<'' = count_list s CHR ''>''"
proof (induction rule: markup.induct)
  case markup_nil
  then show ?case by simp
next
  case (markup_chr c s)
  then show ?case by (simp add: text_char_def)
next
  case (markup_ent e s)
  then show ?case by auto
next
  case (markup_tag t s)
  then show ?case using renderer_tag_angles [of t] by simp
qed

text \<open>
  Whatever the name, the documentation, the type, the arguments, the context and the
  module and import names of a declaration are, the text that \<^verbatim>\<open>popup_brief\<close> returns is
  markup in which every \<^verbatim>\<open><\<close>, \<^verbatim>\<open>>\<close> and \<^verbatim>\<open>&\<close> belongs to a tag or an entity written by
  the renderer: these fields are escaped before they are inserted. The text that
  \<^verbatim>\<open>popup\<close> returns is such markup too, except for the address of the link to a source
  module, which is the file name of that module as it is.
\<close>

lemma popup_markup_except_file_name:
  "(popup_brief h d = Returned s \<longrightarrow> markup {} s)
   \<and> (popup h d = Returned s' \<longrightarrow> markup (verbatim_hrefs h d) s')"
  using markup_popup_brief [of h d s "{}"] markup_popup [of h d s'] by blast

text \<open>
  Claim C6 on the code. \<^verbatim>\<open>popup\<close> writes the link to a source module as
  \<^verbatim>\<open><a href="{0}">\<close> filled with \<^verbatim>\<open>location.to_string()\<close> unescaped, while the addresses of
  the links in \<^verbatim>\<open>popup_brief\<close> and of the Hackage link pass through \<^verbatim>\<open>html.escape\<close>. For
  the declaration \<^verbatim>\<open><$>\<close> of a module at the file \<^verbatim>\<open>a<b.hs\<close> the name is escaped but the
  popup contains the \<^verbatim>\<open><\<close> of the file name: a markup character that belongs to no tag
  or entity of the renderer, so that the text is not markup.
\<close>

theorem popup_source_link_not_escaped:
  \<open>popup heap_rawfile 0 = Returned
      (''<p><span class="function">&lt;$&gt;</span><br>&nbsp;&nbsp;&nbsp;&nbsp;''
       @ ''<span class="comment">-- Defined in <a href="a<b.hs">M</a></span></p>'')
   \<and> \<not> markup {}
      (''<p><span class="function">&lt;$&gt;</span><br>&nbsp;&nbsp;&nbsp;&nbsp;''
       @ ''<span class="comment">-- Defined in <a href="a<b.hs">M</a></span></p>'')\<close>
proof -
  have e: \<open>popup heap_rawfile 0 = Returned
      (''<p><span class="function">&lt;$&gt;</span><br>&nbsp;&nbsp;&nbsp;&nbsp;''
       @ ''<span class="comment">-- Defined in <a href="a<b.hs">M</a></span></p>'')\<close>
    by code_simp
  have \<open>count_list
      (''<p><span class="function">&lt;$&gt;</span><br>&nbsp;&nbsp;&nbsp;&nbsp;''
       @ ''<span class="comment">-- Defined in <a href="a<b.hs">M</a></span></p>'') CHR ''<''
      \<noteq> count_list
      (''<p><span class="function">&lt;$&gt;</span><br>&nbsp;&nbsp;&nbsp;&nbsp;''
       @ ''<span class="comment">-- Defined in <a href="a<b.hs">M</a></span></p>'') CHR ''>''\<close>
    by simp
  then have n: \<open>\<not> markup {}
      (''<p><span class="function">&lt;$&gt;</span><br>&nbsp;&nbsp;&nbsp;&nbsp;''
       @ ''<span class="comment">-- Defined in <a href="a<b.hs">M</a></span></p>'')\<close>
    using markup_angles_balanced by blast
  show ?thesis using e n by (rule conjI)
qed

end
